theory Spec2Isabelle
  imports Complex_Main "HOL-Library.Sublist"
begin

section \<open>JavaScript strings and numbers\<close>

text \<open>
  The program is \<^verbatim>\<open>src/cli.js\<close>. A JavaScript string is modelled as a \<^typ>\<open>string\<close>, one
  \<^typ>\<open>char\<close> per code unit, and the model is that of ASCII text: the classes \<^verbatim>\<open>\s\<close> and
  \<^verbatim>\<open>\w\<close> and the case mappings below are the ASCII parts of the JavaScript ones, and a
  character outside ASCII is an opaque symbol (neither space nor word character, no case).
  A JavaScript number is modelled as a \<^typ>\<open>real\<close> (counts as \<^typ>\<open>nat\<close>); the rounding
  of IEEE doubles is not modelled.
\<close>

definition isSpace :: "char \<Rightarrow> bool" where
  \<comment> \<open>the class \<^verbatim>\<open>\s\<close>: tab, line feed, vertical tab, form feed, carriage return, space\<close>
  "isSpace c = (c \<in> set [CHR 0x09, CHR 0x0A, CHR 0x0B, CHR 0x0C, CHR 0x0D, CHR '' ''])"

definition lowerAlpha :: string where
  "lowerAlpha = ''abcdefghijklmnopqrstuvwxyz''"

definition upperAlpha :: string where
  "upperAlpha = ''ABCDEFGHIJKLMNOPQRSTUVWXYZ''"

definition isWordChar :: "char \<Rightarrow> bool" where
  \<comment> \<open>the class \<^verbatim>\<open>\w\<close>\<close>
  "isWordChar c = (c \<in> set (lowerAlpha @ upperAlpha @ ''0123456789_''))"

definition toLowerChar :: "char \<Rightarrow> char" where
  "toLowerChar c = (case map_of (zip upperAlpha lowerAlpha) c of Some l \<Rightarrow> l | None \<Rightarrow> c)"

definition toUpperChar :: "char \<Rightarrow> char" where
  "toUpperChar c = (case map_of (zip lowerAlpha upperAlpha) c of Some u \<Rightarrow> u | None \<Rightarrow> c)"

definition toLowerCase :: "string \<Rightarrow> string" where
  "toLowerCase s = map toLowerChar s"

definition toUpperCase :: "string \<Rightarrow> string" where
  "toUpperCase s = map toUpperChar s"

definition trim :: "string \<Rightarrow> string" where
  "trim s = rev (dropWhile isSpace (rev (dropWhile isSpace s)))"

fun includesStr :: "string \<Rightarrow> string \<Rightarrow> bool" where
  \<comment> \<open>\<^verbatim>\<open>s.includes(t)\<close>\<close>
  "includesStr [] t = (t = [])"
| "includesStr (c # cs) t = (prefix t (c # cs) \<or> includesStr cs t)"

text \<open>
  \<^verbatim>\<open>s.split(/[...]+/)\<close> for a character class: the pieces between the maximal runs of
  separator characters, with the empty pieces JavaScript gives at a leading and a
  trailing separator.
\<close>

function splitRuns :: "(char \<Rightarrow> bool) \<Rightarrow> string \<Rightarrow> string list" where
  "splitRuns P [] = [[]]"
| "splitRuns P (c # cs) =
     (if P c then [] # splitRuns P (dropWhile P cs)
      else (case splitRuns P cs of [] \<Rightarrow> [[c]] | x # xs \<Rightarrow> (c # x) # xs))"
  by pat_completeness auto
termination
  by (relation "measure (\<lambda>(P, s). length s)") (auto simp: le_imp_less_Suc length_dropWhile_le)

fun splitParagraphs :: "string \<Rightarrow> string list" where
  \<comment> \<open>\<^verbatim>\<open>text.split('\n\n')\<close>\<close>
  "splitParagraphs (c # d # cs) =
     (if c = CHR 0x0A \<and> d = CHR 0x0A then [] # splitParagraphs cs
      else (case splitParagraphs (d # cs) of [] \<Rightarrow> [[c]] | x # xs \<Rightarrow> (c # x) # xs))"
| "splitParagraphs s = [s]"

fun showNat :: "nat \<Rightarrow> string" where
  "showNat n =
     (if n < 10 then [''0123456789'' ! n]
      else showNat (n div 10) @ [''0123456789'' ! (n mod 10)])"

definition toFixed :: "real \<Rightarrow> nat \<Rightarrow> string" where
  \<comment> \<open>\<^verbatim>\<open>x.toFixed(f)\<close> for \<open>0 \<le> x\<close> and \<open>0 < f\<close>: the nearest multiple of \<open>10\<^sup>-\<^sup>f\<close>, the larger at a tie\<close>
  "toFixed x f =
     (let n = nat \<lfloor>x * 10 ^ f + 1 / 2\<rfloor>;
          frac = showNat (n mod 10 ^ f)
      in showNat (n div 10 ^ f) @ ''.'' @ replicate (f - length frac) CHR ''0'' @ frac)"

section \<open>Regular expressions\<close>

text \<open>
  A regular expression of the source is a matcher: at a position of the subject, given
  the character before it (for \<^verbatim>\<open>\b\<close>) and the rest of the subject, the length of the match
  that starts there, if there is one. A global search tries the positions from left to
  right and resumes after a match.
\<close>

type_synonym matcher = "char option \<Rightarrow> string \<Rightarrow> nat option"

definition wordBefore :: "char option \<Rightarrow> bool" where
  "wordBefore prev = (case prev of None \<Rightarrow> False | Some c \<Rightarrow> isWordChar c)"

definition wordAt :: "string \<Rightarrow> bool" where
  "wordAt s = (case s of [] \<Rightarrow> False | c # _ \<Rightarrow> isWordChar c)"

definition spaceAt :: "string \<Rightarrow> bool" where
  "spaceAt s = (case s of [] \<Rightarrow> False | c # _ \<Rightarrow> isSpace c)"

fun startsWithCI :: "string \<Rightarrow> string \<Rightarrow> bool" where
  \<comment> \<open>a literal under the flag \<^verbatim>\<open>i\<close>, at the front of \<open>s\<close>\<close>
  "startsWithCI [] s = True"
| "startsWithCI (p # ps) [] = False"
| "startsWithCI (p # ps) (c # cs) =
     (if toLowerChar c = toLowerChar p then startsWithCI ps cs else False)"

definition wordCI :: "string \<Rightarrow> string \<Rightarrow> bool" where
  \<comment> \<open>\<^verbatim>\<open>LIT\b\<close> under the flag \<^verbatim>\<open>i\<close>, for a literal that ends with a letter\<close>
  "wordCI lit s = (if startsWithCI lit s then \<not> wordAt (drop (length lit) s) else False)"

definition wordThenSpace :: "string \<Rightarrow> string \<Rightarrow> bool" where
  \<comment> \<open>\<^verbatim>\<open>LIT\s\<close> under the flag \<^verbatim>\<open>i\<close>\<close>
  "wordThenSpace lit s = (if startsWithCI lit s then spaceAt (drop (length lit) s) else False)"

definition endsWithCI :: "string \<Rightarrow> string \<Rightarrow> bool" where
  "endsWithCI suf w =
     (length suf \<le> length w \<and> toLowerCase (drop (length w - length suf) w) = toLowerCase suf)"

function countMatches :: "matcher \<Rightarrow> char option \<Rightarrow> string \<Rightarrow> nat" where
  \<comment> \<open>\<^verbatim>\<open>(s.match(/.../g) || []).length\<close>\<close>
  "countMatches m prev [] = 0"
| "countMatches m prev (c # cs) =
     (case m prev (c # cs) of
        None \<Rightarrow> countMatches m (Some c) cs
      | Some n \<Rightarrow> Suc (countMatches m (Some ((c # cs) ! (n - 1))) (drop (max n 1) (c # cs))))"
  by pat_completeness auto
termination
  by (relation "measure (\<lambda>(m, prev, s). length s)") auto

section \<open>The analyzer\<close>

text \<open>Lines 8 and 9 of \<^verbatim>\<open>analyzeAIPatterns\<close>: the sentences and the words of the text.\<close>

definition isTerminator :: "char \<Rightarrow> bool" where
  \<comment> \<open>the class \<^verbatim>\<open>[.!?]\<close>\<close>
  "isTerminator c = (c \<in> set ''.!?'')"

definition splitSentences :: "string \<Rightarrow> string list" where
  "splitSentences txt = filter (\<lambda>s. 0 < length (trim s)) (splitRuns isTerminator txt)"

definition splitWords :: "string \<Rightarrow> string list" where
  "splitWords txt = filter (\<lambda>w. 0 < length w) (splitRuns isSpace (toLowerCase txt))"

definition formalWords :: "string list" where
  "formalWords =
     [''utilize'', ''implement'', ''facilitate'', ''leverage'', ''optimize'', ''strategic'',
      ''comprehensive'', ''methodology'', ''framework'', ''paradigm'', ''subsequently'',
      ''aforementioned'', ''nonetheless'', ''heretofore'', ''wherein'', ''whereby'',
      ''notwithstanding'', ''henceforth'', ''ascertain'', ''endeavor'', ''procure'',
      ''paramount'', ''integral'', ''quintessential'', ''multifaceted'', ''substantiate'']"

text \<open>
  A \<^verbatim>\<open>Map\<close> from strings to counts is an association list in insertion order, which is
  the order \<^verbatim>\<open>values()\<close> lists it in; \<open>bump\<close> is
  \<^verbatim>\<open>m.set(k, (m.get(k) || 0) + 1)\<close>.
\<close>

type_synonym freq = "(string \<times> nat) list"

fun bump :: "freq \<Rightarrow> string \<Rightarrow> freq" where
  "bump [] k = [(k, 1)]"
| "bump ((k', n) # m) k = (if k' = k then (k', n + 1) # m else (k', n) # bump m k)"

fun countWords :: "string list \<Rightarrow> freq \<times> freq \<Rightarrow> freq \<times> freq" where
  \<comment> \<open>the \<^verbatim>\<open>forEach\<close> of lines 51 to 59, on \<open>(wordFreq, phraseFreq)\<close>\<close>
  "countWords [] (wfreq, pfreq) = (wfreq, pfreq)"
| "countWords (word # rest) (wfreq, pfreq) =
     countWords rest
       (if 3 < length word then bump wfreq word else wfreq,
        case rest of [] \<Rightarrow> pfreq | nxt # _ \<Rightarrow> bump pfreq (word @ '' '' @ nxt))"

text \<open>
  The passive patterns all have the shape \<^verbatim>\<open>\bK1\s+...Kn\s+\w+ed\b\<close>, each \<open>Ki\<close> an alternation
  of words. No alternative is a prefix of another, so at most one alternative of \<open>Ki\<close> is
  followed by white space; \<^verbatim>\<open>\s+\<close> takes the whole run of white space, a word character
  having to follow; and \<^verbatim>\<open>\w+ed\b\<close> takes the whole run of word characters, which has to
  end in the suffix after at least one other character.
\<close>

fun matchKeywords :: "string list list \<Rightarrow> string \<Rightarrow> string option" where
  "matchKeywords [] s = Some s"
| "matchKeywords (alts # more) s =
     (case List.find (\<lambda>a. wordThenSpace a s) alts of
        None \<Rightarrow> None
      | Some a \<Rightarrow> matchKeywords more (dropWhile isSpace (drop (length a) s)))"

definition passiveMatch :: "string list list \<Rightarrow> string \<Rightarrow> matcher" where
  "passiveMatch kws suf prev s =
     (if wordBefore prev then None
      else case matchKeywords kws s of
        None \<Rightarrow> None
      | Some rest \<Rightarrow>
          (let w = takeWhile isWordChar rest
           in if length suf < length w \<and> endsWithCI suf w
              then Some (length s - length rest + length w) else None))"

definition passivePatterns :: "matcher list" where
  "passivePatterns =
     [passiveMatch [[''is'', ''are'', ''was'', ''were'', ''been'', ''being'']] ''ed'',
      passiveMatch [[''is'', ''are'', ''was'', ''were'', ''been'', ''being'']] ''en'',
      passiveMatch [[''can''], [''be'']] ''ed'',
      passiveMatch [[''will''], [''be'']] ''ed'',
      passiveMatch [[''has''], [''been'']] ''ed'',
      passiveMatch [[''have''], [''been'']] ''ed'']"

definition contractions :: "string list" where
  "contractions =
     [''can't'', ''won't'', ''don't'',
      ''isn't'', ''aren't'', ''wasn't'',
      ''weren't'', ''haven't'', ''hasn't'',
      ''hadn't'', ''you're'', ''we're'',
      ''they're'', ''it's'', ''that's'',
      ''I'm'', ''I've'', ''I'll'',
      ''there's'', ''who's'', ''what's'',
      ''where's'', ''how's'']"

definition contractionPattern :: matcher where
  \<comment> \<open>\<^verbatim>\<open>/\b(can't|won't|...|how's)\b/gi\<close>: a word boundary, one of the words, a word boundary\<close>
  "contractionPattern prev s =
     (if wordBefore prev then None
      else map_option length
        (List.find (\<lambda>a. wordCI a s) contractions))"

definition roboticTransitions :: "string list" where
  "roboticTransitions =
     [''furthermore'', ''moreover'', ''in conclusion'', ''additionally'', ''consequently'',
      ''subsequently'', ''therefore'', ''thus'', ''hence'', ''accordingly'', ''nevertheless'',
      ''notwithstanding'', ''it is important to note'', ''it should be noted'',
      ''it is worth mentioning'', ''in this regard'', ''in light of'', ''with respect to'',
      ''in terms of'', ''with regard to'', ''as previously mentioned'']"

definition wordCount :: "string \<Rightarrow> nat" where
  \<comment> \<open>\<^verbatim>\<open>s.trim().split(/\s+/).length\<close>\<close>
  "wordCount s = length (splitRuns isSpace (trim s))"

definition mean :: "real list \<Rightarrow> real" where
  "mean xs = sum_list xs / real (length xs)"

definition variance :: "real list \<Rightarrow> real" where
  "variance xs = sum_list (map (\<lambda>x. (x - mean xs)\<^sup>2) xs) / real (length xs)"

datatype jsval = JNum real | JStr string

record detailedMetrics_rec =
  totalWords :: nat
  totalSentences :: nat
  avgSentenceLength :: jsval
  uniqueWordRatio :: jsval
  contractionCount :: nat
  passiveVoiceInstances :: nat

record analysis =
  aiPatterns :: "string list"
  formalityScore :: real
  repetitionScore :: real
  passiveCount :: nat
  passiveScore :: real
  sentenceVariety :: real
  starterScore :: real
  contractionScore :: real
  transitionScore :: real
  vocabDiversity :: real
  overallAIScore :: real
  detailedMetrics :: detailedMetrics_rec

definition insufficient :: "string list \<Rightarrow> string list \<Rightarrow> analysis" where
  \<comment> \<open>the record of lines 13 to 33\<close>
  "insufficient sentences wrds =
     \<lparr> aiPatterns = [''Insufficient text for analysis''],
       formalityScore = 0, repetitionScore = 0, passiveCount = 0, passiveScore = 0,
       sentenceVariety = 0, starterScore = 0, contractionScore = 0, transitionScore = 0,
       vocabDiversity = 0, overallAIScore = 0,
       detailedMetrics =
         \<lparr> totalWords = length wrds, totalSentences = length sentences,
           avgSentenceLength = JNum 0, uniqueWordRatio = JNum 0,
           contractionCount = 0, passiveVoiceInstances = 0 \<rparr> \<rparr>"

definition formalCountOf :: "string list \<Rightarrow> nat" where
  \<comment> \<open>1. Formality Analysis (lines 44 and 45)\<close>
  "formalCountOf wrds = length (filter (\<lambda>w. w \<in> set formalWords) wrds)"

definition formalityOf :: "string list \<Rightarrow> real" where
  "formalityOf wrds = min (real (formalCountOf wrds) / real (length wrds) * 5) 1"

definition repetitionOf :: "string list \<Rightarrow> real" where
  \<comment> \<open>2. Repetition Analysis (lines 61 and 62)\<close>
  "repetitionOf wrds =
     sum_list (map (\<lambda>f. if 2 < f then (real f - 2) * 0.5 else 0)
                 (map snd (fst (countWords wrds ([], [])))))
     / real (length wrds)"

definition phraseRepetitionOf :: "string list \<Rightarrow> nat" where
  \<comment> \<open>line 64\<close>
  "phraseRepetitionOf wrds =
     length (filter (\<lambda>f. 1 < f) (map snd (snd (countWords wrds ([], [])))))"

definition passiveCountOf :: "string \<Rightarrow> nat" where
  \<comment> \<open>3. Passive Voice Detection (lines 76 to 80)\<close>
  "passiveCountOf txt = sum_list (map (\<lambda>p. countMatches p None txt) passivePatterns)"

definition perSentence :: "nat \<Rightarrow> string list \<Rightarrow> real" where
  \<comment> \<open>\<^verbatim>\<open>count / Math.max(sentences.length, 1)\<close>\<close>
  "perSentence n sentences = real n / real (max (length sentences) 1)"

definition avgLengthOf :: "string list \<Rightarrow> real" where
  \<comment> \<open>4. Sentence Structure Variety (lines 84 to 89)\<close>
  "avgLengthOf sentences = mean (map (\<lambda>s. real (wordCount s)) sentences)"

definition sentenceVarietyOf :: "string list \<Rightarrow> real" where
  "sentenceVarietyOf sentences =
     (let sentenceLengths = map (\<lambda>s. real (wordCount s)) sentences;
          stdDev = sqrt (variance sentenceLengths)
      in min (stdDev / max (avgLengthOf sentences) 1) 1)"

definition starterRepetitionOf :: "string list \<Rightarrow> nat" where
  \<comment> \<open>5. Sentence Starter Pattern Detection (lines 92 to 97)\<close>
  "starterRepetitionOf sentences =
     (let starters = filter (\<lambda>s. s \<noteq> [])
            (map (\<lambda>s. toLowerCase (hd (splitRuns isSpace (trim s)))) sentences);
          starterFreq = fold (\<lambda>s m. bump m s) starters []
      in length (filter (\<lambda>f. 2 < f) (map snd starterFreq)))"

definition contractionCountOf :: "string \<Rightarrow> nat" where
  \<comment> \<open>6. Contraction Analysis (line 102)\<close>
  "contractionCountOf txt = countMatches contractionPattern None txt"

definition transitionCountOf :: "string \<Rightarrow> nat" where
  \<comment> \<open>7. Robotic Transitions Detection (lines 114 to 116)\<close>
  "transitionCountOf txt =
     length (filter (\<lambda>t. includesStr (toLowerCase txt) t) roboticTransitions)"

definition perfectStructureOf :: "string list \<Rightarrow> real" where
  \<comment> \<open>8. Perfect Structure Detection (lines 120 to 127)\<close>
  "perfectStructureOf sentences =
     real ((if 3 < length sentences \<and> list_all (\<lambda>s. 15 < wordCount s) sentences
            then 1 else 0)
         + (if 3 < length sentences \<and> list_all (\<lambda>s. CHR '','' \<in> set s) sentences
            then 1 else 0 :: nat)) / 2"

definition vocabDiversityOf :: "string list \<Rightarrow> real" where
  \<comment> \<open>9. Vocabulary Diversity (lines 130 and 131)\<close>
  "vocabDiversityOf wrds = real (length (remdups wrds)) / real (length wrds)"

definition paragraphConsistencyOf :: "string \<Rightarrow> real" where
  \<comment> \<open>10. Paragraph Consistency (lines 135 to 143)\<close>
  "paragraphConsistencyOf txt =
     (let paragraphs = filter (\<lambda>p. 0 < length (trim p)) (splitParagraphs txt);
          paraLengths = map (\<lambda>p. real (length p)) paragraphs
      in if 1 < length paragraphs
         then (if sqrt (variance paraLengths) / mean paraLengths < 0.2 then 0.5 else 0)
         else 0)"

definition percent :: "real \<Rightarrow> string" where
  \<comment> \<open>\<^verbatim>\<open>(x * 100).toFixed(1)\<close>\<close>
  "percent x = toFixed (x * 100) 1"

definition analyzeAIPatterns :: "string \<Rightarrow> analysis" where
  "analyzeAIPatterns txt =
    (let sentences = splitSentences txt;
         wrds = splitWords txt
     in if length wrds = 0 \<or> length sentences = 0 then insufficient sentences wrds
     else
      (let formalityScoreV = formalityOf wrds;
           repetitionScoreV = repetitionOf wrds;
           phraseRepetition = phraseRepetitionOf wrds;
           passiveCountV = passiveCountOf txt;
           passiveScoreV = min (perSentence passiveCountV sentences) 1;
           avgLength = avgLengthOf sentences;
           sentenceVarietyV = sentenceVarietyOf sentences;
           starterScoreV = min (perSentence (starterRepetitionOf sentences) sentences) 1;
           contractionCountV = contractionCountOf txt;
           contractionScoreV = perSentence contractionCountV sentences;
           lackOfContractions = (if contractionScoreV < 0.1 then 0.8 else 0 :: real);
           transitionCount = transitionCountOf txt;
           transitionScoreV = min (real transitionCount / 3) 1;
           perfectStructure = perfectStructureOf sentences;
           vocabDiversityV = vocabDiversityOf wrds;
           lowDiversityScore = (if vocabDiversityV < 0.5 then 0.6 else 0 :: real);
           paragraphConsistency = paragraphConsistencyOf txt;
           patterns =
             (if 0.15 < formalityScoreV
              then [''High formality level detected ('' @ percent formalityScoreV @ ''%)'']
              else [])
             @ (if 0.08 < repetitionScoreV
                then [''Word repetition detected ('' @ percent repetitionScoreV @ ''%)'']
                else [])
             @ (if 3 < phraseRepetition
                then [''Phrase repetition detected ('' @ showNat phraseRepetition
                        @ '' repeated phrases)'']
                else [])
             @ (if 0.25 < passiveScoreV
                then [''Excessive passive voice ('' @ showNat passiveCountV @ '' instances)'']
                else [])
             @ (if sentenceVarietyV < 0.35
                then [''Uniform sentence lengths (variety: '' @ percent sentenceVarietyV @ ''%)'']
                else [])
             @ (if 0.3 < starterScoreV then [''Repetitive sentence starters detected''] else [])
             @ (if 0.5 < lackOfContractions
                then [''Lack of contractions ('' @ showNat contractionCountV @ '' found)'']
                else [])
             @ (if 0 < transitionCount
                then [''Robotic transitions detected ('' @ showNat transitionCount @ '' found)'']
                else [])
             @ (if 0.3 < perfectStructure then [''Unnaturally perfect sentence structure'']
                else [])
             @ (if 0.3 < lowDiversityScore
                then [''Limited vocabulary diversity ('' @ percent vocabDiversityV @ ''%)'']
                else [])
             @ (if 0.3 < paragraphConsistency
                then [''Suspiciously consistent paragraph lengths''] else []);
           overallAIScoreV =
             min (formalityScoreV * 0.20 + repetitionScoreV * 0.15 + passiveScoreV * 0.15
                  + (1 - sentenceVarietyV) * 0.15 + starterScoreV * 0.10
                  + lackOfContractions * 0.10 + transitionScoreV * 0.10
                  + lowDiversityScore * 0.05) 1
       in \<lparr> aiPatterns = patterns,
            formalityScore = formalityScoreV,
            repetitionScore = repetitionScoreV,
            passiveCount = passiveCountV,
            passiveScore = passiveScoreV,
            sentenceVariety = sentenceVarietyV,
            starterScore = starterScoreV,
            contractionScore = contractionScoreV,
            transitionScore = transitionScoreV,
            vocabDiversity = vocabDiversityV,
            overallAIScore = overallAIScoreV,
            detailedMetrics =
              \<lparr> totalWords = length wrds, totalSentences = length sentences,
                avgSentenceLength = JStr (toFixed avgLength 1),
                uniqueWordRatio = JStr (toFixed vocabDiversityV 2),
                contractionCount = contractionCountV,
                passiveVoiceInstances = passiveCountV \<rparr> \<rparr>))"

section \<open>The final polish\<close>

text \<open>
  Each replacement of \<^verbatim>\<open>finalPolish\<close> (lines 663 to 679) is a function of its own. A run of
  white space is matched whole: \<^verbatim>\<open>\s+\<close> is greedy, and in each of the patterns the character
  that has to follow is not white space, so that a shorter match of the run never succeeds.
\<close>

definition isPunct :: "char \<Rightarrow> bool" where
  \<comment> \<open>the class \<^verbatim>\<open>[.,!?;:]\<close>\<close>
  "isPunct c = (c \<in> set ''.,!?;:'')"

lemma dropWhile_Cons_length: "dropWhile P cs = d # ds \<Longrightarrow> length ds < Suc (length cs)"
  using length_dropWhile_le[of P cs] by simp

lemma dropWhile_Cons_length2:
  "dropWhile P cs = d # ds \<Longrightarrow> length (dropWhile Q ds) < Suc (length cs)"
  using length_dropWhile_le[of P cs] length_dropWhile_le[of Q ds] by simp

function collapseSpaces :: "string \<Rightarrow> string" where
  \<comment> \<open>\<^verbatim>\<open>replace(/\s+/g, ' ')\<close>\<close>
  "collapseSpaces [] = []"
| "collapseSpaces (c # cs) =
     (if isSpace c then CHR '' '' # collapseSpaces (dropWhile isSpace cs)
      else c # collapseSpaces cs)"
  by pat_completeness auto
termination
  by (relation "measure length") (auto simp: le_imp_less_Suc length_dropWhile_le)

function removeSpaceBefore :: "(char \<Rightarrow> bool) \<Rightarrow> string \<Rightarrow> string" where
  \<comment> \<open>\<^verbatim>\<open>replace(/\s+([...])/g, '$1')\<close>, for the class \<open>P\<close>\<close>
  "removeSpaceBefore P [] = []"
| "removeSpaceBefore P (c # cs) =
     (if isSpace c then
        (case dropWhile isSpace cs of
           [] \<Rightarrow> c # removeSpaceBefore P cs
         | d # ds \<Rightarrow> if P d then d # removeSpaceBefore P ds else c # removeSpaceBefore P cs)
      else c # removeSpaceBefore P cs)"
  by pat_completeness auto
termination
  by (relation "measure (\<lambda>(P, s). length s)") (auto simp: dropWhile_Cons_length)

function spaceAfterPunct :: "string \<Rightarrow> string" where
  \<comment> \<open>\<^verbatim>\<open>replace(/([.,!?;:])\s*/g, '$1 ')\<close>\<close>
  "spaceAfterPunct [] = []"
| "spaceAfterPunct (c # cs) =
     (if isPunct c then c # CHR '' '' # spaceAfterPunct (dropWhile isSpace cs)
      else c # spaceAfterPunct cs)"
  by pat_completeness auto
termination
  by (relation "measure length") (auto simp: le_imp_less_Suc length_dropWhile_le)

function collapseChar :: "char \<Rightarrow> string \<Rightarrow> string" where
  \<comment> \<open>\<^verbatim>\<open>replace(/\.+/g, '.')\<close>, for the character \<open>d\<close>\<close>
  "collapseChar d [] = []"
| "collapseChar d (c # cs) =
     (if c = d then d # collapseChar d (dropWhile (\<lambda>x. x = d) cs)
      else c # collapseChar d cs)"
  by pat_completeness auto
termination
  by (relation "measure (\<lambda>(d, s). length s)") (auto simp: le_imp_less_Suc length_dropWhile_le)

function capitalizeSentences :: "string \<Rightarrow> string" where
  \<comment> \<open>\<^verbatim>\<open>replace(/([.!?]\s+)(\w)/g, (match, punct, letter) => punct + letter.toUpperCase())\<close>\<close>
  "capitalizeSentences [] = []"
| "capitalizeSentences (c # cs) =
     (if isTerminator c \<and> spaceAt cs then
        (case dropWhile isSpace cs of
           [] \<Rightarrow> c # capitalizeSentences cs
         | d # ds \<Rightarrow>
             if isWordChar d
             then c # takeWhile isSpace cs @ toUpperChar d # capitalizeSentences ds
             else c # capitalizeSentences cs)
      else c # capitalizeSentences cs)"
  by pat_completeness auto
termination
  by (relation "measure length") (auto simp: dropWhile_Cons_length)

definition capitalizeFirst :: "string \<Rightarrow> string" where
  \<comment> \<open>\<^verbatim>\<open>result.charAt(0).toUpperCase() + result.slice(1)\<close>\<close>
  "capitalizeFirst s = (case s of [] \<Rightarrow> [] | c # cs \<Rightarrow> toUpperChar c # cs)"

function dashSpacing :: "string \<Rightarrow> string" where
  \<comment> \<open>\<^verbatim>\<open>replace(/\s+-\s+/g, ' - ')\<close>\<close>
  "dashSpacing [] = []"
| "dashSpacing (c # cs) =
     (if isSpace c then
        (case dropWhile isSpace cs of
           [] \<Rightarrow> c # dashSpacing cs
         | d # ds \<Rightarrow>
             if d = CHR ''-'' \<and> spaceAt ds
             then '' - '' @ dashSpacing (dropWhile isSpace ds)
             else c # dashSpacing cs)
      else c # dashSpacing cs)"
  by pat_completeness auto
termination
  by (relation "measure length") (auto simp: dropWhile_Cons_length dropWhile_Cons_length2)

definition finalPolish :: "string \<Rightarrow> string" where
  "finalPolish txt =
     (let result = collapseSpaces txt;
          result = removeSpaceBefore isPunct result;
          result = spaceAfterPunct result;
          result = collapseChar CHR ''.'' result;
          result = collapseChar CHR ''?'' result;
          result = collapseChar CHR ''!'' result;
          result = capitalizeSentences result;
          result = capitalizeFirst result;
          result = dashSpacing result;
          result = removeSpaceBefore (\<lambda>c. c = CHR '','') result;
          result = removeSpaceBefore (\<lambda>c. c = CHR ''.'') result
      in trim result)"

section \<open>The humanization stages\<close>

text \<open>
  \<^verbatim>\<open>Math.random()\<close> reads an ambient source and returns a number in \<open>[0, 1)\<close>. The source is
  a parameter of the model: a sequence of reals, of which a call returns the fractional
  part of the first and leaves the rest. Every sequence of numbers in \<open>[0, 1)\<close> is such a
  source, and a function that draws returns the rest of the sequence with its result.
\<close>

type_synonym rng = "nat \<Rightarrow> real"

definition random :: "rng \<Rightarrow> real \<times> rng" where
  "random g = (frac (g 0), \<lambda>n. g (Suc n))"

definition randomIndex :: "nat \<Rightarrow> rng \<Rightarrow> nat \<times> rng" where
  \<comment> \<open>\<^verbatim>\<open>Math.floor(Math.random() * n)\<close>\<close>
  "randomIndex n g = (case random g of (x, g') \<Rightarrow> (nat \<lfloor>x * real n\<rfloor>, g'))"

datatype tone = Casual | Professional | Academic | Creative

datatype strength = Light | Medium | Aggressive

datatype error = TypeError

text \<open>
  A replacement rule is a matcher that also gives the text to put in the place of the
  match; \<open>replaceAll\<close> is \<^verbatim>\<open>s.replace(/.../g, ...)\<close>.
\<close>

type_synonym rule = "char option \<Rightarrow> string \<Rightarrow> (nat \<times> string) option"

function replaceAll :: "rule \<Rightarrow> char option \<Rightarrow> string \<Rightarrow> string" where
  "replaceAll r prev [] = []"
| "replaceAll r prev (c # cs) =
     (case r prev (c # cs) of
        None \<Rightarrow> c # replaceAll r (Some c) cs
      | Some (n, rep) \<Rightarrow>
          rep @ (if n = 0 then c # replaceAll r (Some c) cs
                 else replaceAll r (Some ((c # cs) ! (n - 1))) (drop n (c # cs))))"
  by pat_completeness auto
termination
  by (relation "measure (\<lambda>(r, prev, s). length s)") auto

function replaceAllRnd ::
  "matcher \<Rightarrow> (string \<Rightarrow> rng \<Rightarrow> string \<times> rng) \<Rightarrow> char option \<Rightarrow> string \<Rightarrow> rng \<Rightarrow> string \<times> rng"
where
  \<comment> \<open>a replacement whose callback draws random numbers, match after match\<close>
  "replaceAllRnd m f prev [] g = ([], g)"
| "replaceAllRnd m f prev (c # cs) g =
     (case m prev (c # cs) of
        None \<Rightarrow> (case replaceAllRnd m f (Some c) cs g of (out, g') \<Rightarrow> (c # out, g'))
      | Some n \<Rightarrow>
          (case f (take n (c # cs)) g of
             (rep, g1) \<Rightarrow>
               (case replaceAllRnd m f (Some ((c # cs) ! (n - 1))) (drop (max n 1) (c # cs)) g1 of
                  (out, g2) \<Rightarrow> (rep @ out, g2))))"
  by pat_completeness auto
termination
  by (relation "measure (\<lambda>(m, f, prev, s, g). length s)") auto

definition isCapitalized :: "string \<Rightarrow> bool" where
  \<comment> \<open>\<^verbatim>\<open>match[0] === match[0].toUpperCase()\<close>, for a string that is not empty\<close>
  "isCapitalized w = (case w of [] \<Rightarrow> False | c # _ \<Rightarrow> c = toUpperChar c)"

definition lowerFirst :: "string \<Rightarrow> string" where
  \<comment> \<open>\<^verbatim>\<open>s.charAt(0).toLowerCase() + s.slice(1)\<close>\<close>
  "lowerFirst s = (case s of [] \<Rightarrow> [] | c # cs \<Rightarrow> toLowerChar c # cs)"

definition wordRule :: "bool \<Rightarrow> string \<Rightarrow> (string \<Rightarrow> string) \<Rightarrow> rule" where
  \<comment> \<open>\<^verbatim>\<open>/\bLIT\b/\<close> for a literal that begins and ends with a letter; the flag is \<^verbatim>\<open>i\<close>\<close>
  "wordRule ci lit f prev s =
     (if wordBefore prev then None
      else if \<not> (if ci then startsWithCI lit s else prefix lit s) then None
      else if wordAt (drop (length lit) s) then None
      else Some (length lit, f (take (length lit) s)))"

definition literalRule :: "string \<Rightarrow> string \<Rightarrow> rule" where
  \<comment> \<open>\<^verbatim>\<open>new RegExp(LIT, 'gi')\<close> for a literal without special characters\<close>
  "literalRule lit rep prev s = (if startsWithCI lit s then Some (length lit, rep) else None)"

text \<open>\<^verbatim>\<open>text.match(/[^.!?]+[.!?]+/g) || [text]\<close>\<close>

function sentencePieces :: "string \<Rightarrow> string list" where
  "sentencePieces [] = []"
| "sentencePieces (c # cs) =
     (if isTerminator c then sentencePieces cs
      else (let body = c # takeWhile (\<lambda>x. \<not> isTerminator x) cs;
                rest = dropWhile (\<lambda>x. \<not> isTerminator x) cs
            in if rest = [] then []
               else (body @ takeWhile isTerminator rest)
                    # sentencePieces (dropWhile isTerminator rest)))"
  by pat_completeness auto
termination
proof (relation "measure length", goal_cases)
  case (3 c cs body rest)
  have "length (dropWhile isTerminator rest) \<le> length rest" by (rule length_dropWhile_le)
  moreover have "length rest \<le> length cs" using 3 by (simp add: length_dropWhile_le)
  ultimately show ?case by simp
qed auto

definition matchSentences :: "string \<Rightarrow> string list" where
  "matchSentences txt = (case sentencePieces txt of [] \<Rightarrow> [txt] | ps \<Rightarrow> ps)"

definition joinWith :: "string \<Rightarrow> string list \<Rightarrow> string" where
  \<comment> \<open>\<^verbatim>\<open>xs.join(sep)\<close>\<close>
  "joinWith sep xs = (case xs of [] \<Rightarrow> [] | x # rest \<Rightarrow> x @ concat (map (\<lambda>y. sep @ y) rest))"

subsection \<open>reduceFormality\<close>

definition baseReplacements :: "(string \<times> string) list" where
  "baseReplacements =
     [(''utilize'', ''use''), (''implement'', ''set up''), (''facilitate'', ''help''),
      (''leverage'', ''use''), (''optimize'', ''improve''), (''strategic'', ''smart''),
      (''comprehensive'', ''complete''), (''methodology'', ''approach''),
      (''framework'', ''system''), (''paradigm'', ''model''), (''in order to'', ''to''),
      (''due to the fact that'', ''because''), (''it is important to note'', ''note that''),
      (''it should be noted'', ''worth noting''), (''the majority of'', ''most''),
      (''a significant number'', ''many''), (''substantial'', ''big''), (''numerous'', ''many''),
      (''approximately'', ''about''), (''regarding'', ''about''), (''concerning'', ''about''),
      (''pertaining to'', ''about''), (''with respect to'', ''about''),
      (''in light of'', ''because of''), (''endeavor'', ''try''), (''ascertain'', ''find out''),
      (''procure'', ''get''), (''subsequently'', ''later''), (''therefore'', ''so''),
      (''thus'', ''so''), (''hence'', ''so''), (''accordingly'', ''so''),
      (''consequently'', ''as a result''), (''nevertheless'', ''but''), (''nonetheless'', ''but''),
      (''notwithstanding'', ''despite'')]"

definition aggressiveReplacements :: "(string \<times> string) list" where
  "aggressiveReplacements =
     [(''demonstrate'', ''show''), (''indicate'', ''show''), (''illustrate'', ''show''),
      (''establish'', ''prove''), (''determine'', ''figure out''), (''examine'', ''look at''),
      (''analyze'', ''break down''), (''evaluate'', ''check out''), (''assess'', ''judge''),
      (''investigate'', ''look into''), (''commence'', ''start''), (''terminate'', ''end''),
      (''initiate'', ''start''), (''conclude'', ''end''), (''obtain'', ''get''),
      (''acquire'', ''get''), (''purchase'', ''buy''), (''receive'', ''get'')]"

definition reduceFormality :: "string \<Rightarrow> tone \<Rightarrow> strength \<Rightarrow> string" where
  "reduceFormality txt tn st =
     (let replacements =
        (if st = Aggressive then baseReplacements @ aggressiveReplacements else baseReplacements)
      in fold (\<lambda>(formal, casual) result.
                 replaceAll
                   (wordRule True formal
                      (\<lambda>m. if isCapitalized m then capitalizeFirst casual else casual))
                   None result)
           replacements txt)"

subsection \<open>reduceRepetition\<close>

text \<open>\<^verbatim>\<open>text.split(/(\s+)/)\<close>: the pieces and, between them, the runs of white space.\<close>

function splitKeepSpaces :: "string \<Rightarrow> string list" where
  "splitKeepSpaces [] = [[]]"
| "splitKeepSpaces (c # cs) =
     (if isSpace c
      then [] # (c # takeWhile isSpace cs) # splitKeepSpaces (dropWhile isSpace cs)
      else (case splitKeepSpaces cs of [] \<Rightarrow> [[c]] | x # xs \<Rightarrow> (c # x) # xs))"
  by pat_completeness auto
termination
  by (relation "measure length") (auto simp: le_imp_less_Suc length_dropWhile_le)

definition synonymMap :: "(string \<times> string list) list" where
  "synonymMap =
     [(''important'', [''key'', ''crucial'', ''vital'', ''essential'', ''critical'']),
      (''good'', [''great'', ''excellent'', ''solid'', ''strong'', ''effective'']),
      (''bad'', [''poor'', ''weak'', ''problematic'', ''flawed'', ''subpar'']),
      (''big'', [''large'', ''major'', ''significant'', ''substantial'', ''huge'']),
      (''small'', [''minor'', ''tiny'', ''limited'', ''modest'', ''slight'']),
      (''show'', [''reveal'', ''display'', ''demonstrate'', ''indicate'', ''present'']),
      (''make'', [''create'', ''build'', ''produce'', ''generate'', ''develop'']),
      (''get'', [''obtain'', ''acquire'', ''receive'', ''gain'', ''secure'']),
      (''use'', [''apply'', ''employ'', ''utilize'', ''implement'', ''deploy'']),
      (''think'', [''believe'', ''feel'', ''consider'', ''reckon'', ''figure'']),
      (''say'', [''state'', ''mention'', ''note'', ''express'', ''indicate'']),
      (''help'', [''assist'', ''support'', ''aid'', ''facilitate'', ''enable'']),
      (''need'', [''require'', ''necessitate'', ''demand'', ''call for'', ''want'']),
      (''want'', [''desire'', ''wish'', ''prefer'', ''seek'', ''need''])]"

text \<open>
  \<^verbatim>\<open>synonymMap[lowerWord]\<close> reads a property of an object literal, so that besides the
  fourteen keys it finds what the object inherits: \<^verbatim>\<open>constructor\<close> (the function
  \<^verbatim>\<open>Object\<close>, whose \<^verbatim>\<open>length\<close> is 1 and whose element 0 is \<^verbatim>\<open>undefined\<close>) and \<^verbatim>\<open>__proto__\<close> (an
  object without \<^verbatim>\<open>length\<close>). The other inherited names have an upper-case letter and
  are never equal to a lower-cased word.
\<close>

datatype property = Synonyms "string list" | ObjectFunction | ObjectPrototype | Undefined

definition synonymsOf :: "string \<Rightarrow> property" where
  "synonymsOf w =
     (case map_of synonymMap w of
        Some syns \<Rightarrow> Synonyms syns
      | None \<Rightarrow> if w = ''constructor'' then ObjectFunction
                else if w = ''__proto__'' then ObjectPrototype else Undefined)"

definition repetitionStep :: "strength \<Rightarrow> string \<Rightarrow> nat \<Rightarrow> rng \<Rightarrow> error + (string \<times> rng)" where
  \<comment> \<open>lines 362 to 369: what is pushed for a word seen \<open>count\<close> times before; the empty string
      stands for \<^verbatim>\<open>undefined\<close>, which \<^verbatim>\<open>join\<close> writes as the empty string\<close>
  "repetitionStep st word count g =
     (let lowerWord = toLowerCase word
      in if 1 < count \<and> synonymsOf lowerWord \<noteq> Undefined then
           (case random g of
              (x, g1) \<Rightarrow>
                if x < (if st = Aggressive then 0.7 else 0.4) then
                  (case random g1 of
                     (y, g2) \<Rightarrow>
                       (case synonymsOf lowerWord of
                          Synonyms syns \<Rightarrow>
                            (let synonym = syns ! nat \<lfloor>y * real (length syns)\<rfloor>
                             in Inr (if isCapitalized word then capitalizeFirst synonym
                                     else synonym, g2))
                        | _ \<Rightarrow> if isCapitalized word then Inl TypeError else Inr ([], g2)))
                else Inr (word, g1))
         else Inr (word, g))"

fun repetitionLoop ::
  "strength \<Rightarrow> string list \<Rightarrow> freq \<Rightarrow> rng \<Rightarrow> error + (string list \<times> rng)" where
  \<comment> \<open>the loop of lines 357 to 372\<close>
  "repetitionLoop st [] usedWords g = Inr ([], g)"
| "repetitionLoop st (word # rest) usedWords g =
     (case repetitionStep st word
             (case map_of usedWords (toLowerCase word) of None \<Rightarrow> 0 | Some n \<Rightarrow> n) g of
        Inl e \<Rightarrow> Inl e
      | Inr (new, g') \<Rightarrow>
          (case repetitionLoop st rest (bump usedWords (toLowerCase word)) g' of
             Inl e \<Rightarrow> Inl e
           | Inr (out, g'') \<Rightarrow> Inr (new # out, g'')))"

definition reduceRepetition :: "string \<Rightarrow> strength \<Rightarrow> rng \<Rightarrow> error + (string \<times> rng)" where
  "reduceRepetition txt st g =
     (case repetitionLoop st (splitKeepSpaces txt) [] g of
        Inl e \<Rightarrow> Inl e
      | Inr (result, g') \<Rightarrow> Inr (concat result, g'))"

subsection \<open>convertPassiveToActive\<close>

text \<open>
  The four patterns of lines 383 to 400. A group \<^verbatim>\<open>(\w+)\<close> that white space has to follow is
  a whole run of word characters, and so is \<^verbatim>\<open>(\w+ed)\<close> before \<^verbatim>\<open>\s+\<close>. The last group of
  the fourth pattern has nothing after it: it is the longest beginning of the run that
  ends in "ed" after at least one other character.
\<close>

definition edWord :: "string \<Rightarrow> bool" where
  "edWord w = (2 < length w \<and> endsWithCI ''ed'' w)"

definition passiveByRule :: "string list \<Rightarrow> string \<Rightarrow> rule" where
  \<comment> \<open>\<^verbatim>\<open>/(\w+)\s+(?:AUX)\s+(\w+ed)\s+by\s+(\w+)/gi\<close>, replaced by \<^verbatim>\<open>$3 $2 $1\<close> with the ending
      after \<^verbatim>\<open>$2\<close>\<close>
  "passiveByRule aux ending prev s =
     (let w1 = takeWhile isWordChar s; r1 = dropWhile isWordChar s
      in if w1 = [] \<or> \<not> spaceAt r1 then None
         else case matchKeywords [aux] (dropWhile isSpace r1) of
           None \<Rightarrow> None
         | Some r2 \<Rightarrow>
             (let w2 = takeWhile isWordChar r2; r3 = dropWhile isWordChar r2
              in if \<not> edWord w2 \<or> \<not> spaceAt r3 then None
                 else case matchKeywords [[''by'']] (dropWhile isSpace r3) of
                   None \<Rightarrow> None
                 | Some r4 \<Rightarrow>
                     (let w3 = takeWhile isWordChar r4
                      in if w3 = [] then None
                         else Some (length s - length r4 + length w3,
                                    w3 @ '' '' @ w2 @ ending @ '' '' @ w1))))"

definition passiveItRule :: rule where
  \<comment> \<open>\<^verbatim>\<open>/it\s+(?:is|was)\s+(\w+ed)\s+that/gi\<close>, replaced by \<^verbatim>\<open>we $1 that\<close>\<close>
  "passiveItRule prev s =
     (case matchKeywords [[''it''], [''is'', ''was'']] s of
        None \<Rightarrow> None
      | Some r2 \<Rightarrow>
          (let w2 = takeWhile isWordChar r2; r3 = dropWhile isWordChar r2; r4 = dropWhile isSpace r3
           in if edWord w2 \<and> spaceAt r3 \<and> startsWithCI ''that'' r4
              then Some (length s - length r4 + 4, ''we '' @ w2 @ '' that'') else None))"

definition passiveCanRule :: rule where
  \<comment> \<open>\<^verbatim>\<open>/(\w+)\s+(?:can|could)\s+be\s+(\w+ed)/gi\<close>, replaced by \<^verbatim>\<open>you can $2 $1\<close>\<close>
  "passiveCanRule prev s =
     (let w1 = takeWhile isWordChar s; r1 = dropWhile isWordChar s
      in if w1 = [] \<or> \<not> spaceAt r1 then None
         else case matchKeywords [[''can'', ''could''], [''be'']] (dropWhile isSpace r1) of
           None \<Rightarrow> None
         | Some r2 \<Rightarrow>
             (let run = takeWhile isWordChar r2
              in case List.find (\<lambda>n. edWord (take n run)) (rev [3..<Suc (length run)]) of
                   None \<Rightarrow> None
                 | Some n \<Rightarrow>
                     Some (length s - length r2 + n, ''you can '' @ take n run @ '' '' @ w1)))"

definition convertPassiveToActive :: "string \<Rightarrow> strength \<Rightarrow> rng \<Rightarrow> string \<times> rng" where
  "convertPassiveToActive txt st g =
     (let intensity = (if st = Aggressive then 1 else if st = Medium then 0.6 else 0.3)
      in case random g of
           (x, g') \<Rightarrow>
             if intensity < x then (txt, g')
             else (fold (\<lambda>r result. replaceAll r None result)
                     [passiveByRule [''is'', ''are''] ''s'', passiveByRule [''was'', ''were''] [],
                      passiveItRule, passiveCanRule] txt, g'))"

subsection \<open>addContractions\<close>

definition contractionTable :: "(string \<times> string) list" where
  "contractionTable =
     [(''I am'', ''I'm''), (''you are'', ''you're''), (''we are'', ''we're''),
      (''they are'', ''they're''), (''it is'', ''it's''), (''that is'', ''that's''),
      (''what is'', ''what's''), (''who is'', ''who's''), (''do not'', ''don't''),
      (''does not'', ''doesn't''), (''did not'', ''didn't''), (''cannot'', ''can't''),
      (''could not'', ''couldn't''), (''would not'', ''wouldn't''),
      (''should not'', ''shouldn't''), (''will not'', ''won't''), (''have not'', ''haven't''),
      (''has not'', ''hasn't''), (''had not'', ''hadn't''), (''is not'', ''isn't''),
      (''are not'', ''aren't''), (''was not'', ''wasn't''), (''were not'', ''weren't'')]"

fun contractLoop :: "real \<Rightarrow> (string \<times> string) list \<Rightarrow> string \<Rightarrow> rng \<Rightarrow> string \<times> rng" where
  \<comment> \<open>the \<^verbatim>\<open>forEach\<close> of lines 472 to 476\<close>
  "contractLoop intensity [] result g = (result, g)"
| "contractLoop intensity ((pat, rep) # others) result g =
     (case random g of
        (x, g') \<Rightarrow>
          contractLoop intensity others
            (if x < intensity then replaceAll (wordRule False pat (\<lambda>m. rep)) None result
             else result) g')"

definition addContractions :: "string \<Rightarrow> strength \<Rightarrow> rng \<Rightarrow> string \<times> rng" where
  "addContractions txt st g =
     contractLoop (if st = Aggressive then 1 else if st = Medium then 0.7 else 0.5)
       contractionTable txt g"

subsection \<open>varySentenceStructure\<close>

definition addContraction :: "string \<Rightarrow> rng \<Rightarrow> string \<times> rng" where
  "addContraction sentence g = addContractions sentence Medium g"

definition startWithConjunction :: "string \<Rightarrow> rng \<Rightarrow> string \<times> rng" where
  "startWithConjunction sentence g =
     (case random g of
        (x, g1) \<Rightarrow>
          if x < 0.3 \<and> (case sentence of [] \<Rightarrow> False | c # _ \<Rightarrow> c \<in> set upperAlpha) then
            (case randomIndex 6 g1 of
               (k, g2) \<Rightarrow>
                 ([''And'', ''But'', ''Or'', ''So'', ''Yet'', ''Because''] ! k
                    @ '' '' @ lowerFirst sentence, g2))
          else (sentence, g1))"

definition combineSentences :: "string \<Rightarrow> string \<Rightarrow> rng \<Rightarrow> string \<times> rng" where
  "combineSentences sent1 sent2 g =
     (if sent1 = [] \<or> sent2 = [] then (if sent2 \<noteq> [] then sent2 else sent1, g)
      else case randomIndex 6 g of
        (k, g') \<Rightarrow>
          (rev (dropWhile isTerminator (rev sent1))
             @ ['', and'', '', but'', '', so'', '', yet'', '' - '', '';''] ! k
             @ '' '' @ lowerFirst sent2, g'))"

definition splitSentence :: "string \<Rightarrow> string" where
  "splitSentence sentence =
     (let ws = splitRuns isSpace sentence
      in if 15 < length ws then
           (let midpoint = length ws div 2
            in joinWith '' '' (take midpoint ws) @ ''. ''
                 @ capitalizeFirst (joinWith '' '' (drop midpoint ws)))
         else sentence)"

definition varyTransform ::
  "nat \<Rightarrow> nat \<Rightarrow> nat \<Rightarrow> string list \<Rightarrow> string \<Rightarrow> rng \<Rightarrow> string \<times> rng" where
  \<comment> \<open>\<^verbatim>\<open>transforms[k]()\<close> at the sentence \<open>i\<close> of \<open>n\<close>, lines 418 to 423\<close>
  "varyTransform k i n result sentence g =
     (if k = 0 then addContraction sentence g
      else if k = 1 then startWithConjunction sentence g
      else if k = 2 then
        (if 0 < i \<and> 2 < n then
           (case random g of
              (y, g') \<Rightarrow> if y < 0.3 then combineSentences (last result) sentence g'
                          else (sentence, g'))
         else (sentence, g))
      else (if 15 < length (splitRuns isSpace sentence) then splitSentence sentence
            else sentence, g))"

fun varyLoop ::
  "real \<Rightarrow> nat \<Rightarrow> nat \<Rightarrow> string list \<Rightarrow> string list \<Rightarrow> rng \<Rightarrow> string list \<times> rng" where
  \<comment> \<open>the loop of lines 414 to 437, at the sentence \<open>i\<close> of \<open>n\<close>\<close>
  "varyLoop intensity n i [] result g = (result, g)"
| "varyLoop intensity n i (s # rest) result g =
     (let sentence = trim s
      in case random g of
        (x, g1) \<Rightarrow>
          if x < intensity then
            (case randomIndex 4 g1 of
               (k, g2) \<Rightarrow>
                 (case varyTransform k i n result sentence g2 of
                    (transformed, g3) \<Rightarrow>
                      if transformed \<noteq> sentence \<and> 0 < i \<and> result \<noteq> []
                         \<and> includesStr transformed (last result)
                      then varyLoop intensity n (Suc i) rest (butlast result @ [transformed]) g3
                      else varyLoop intensity n (Suc i) rest (result @ [transformed]) g3))
          else varyLoop intensity n (Suc i) rest (result @ [sentence]) g1)"

definition varySentenceStructure :: "string \<Rightarrow> strength \<Rightarrow> rng \<Rightarrow> string \<times> rng" where
  "varySentenceStructure txt st g =
     (let sentences = matchSentences txt;
          intensity = (if st = Aggressive then 0.4 else if st = Medium then 0.25 else 0.15)
      in case varyLoop intensity (length sentences) 0 sentences [] g of
           (result, g') \<Rightarrow> (joinWith '' '' result, g'))"

subsection \<open>removeRoboticTransitions\<close>

definition roboticReplacements :: "(string \<times> string) list" where
  "roboticReplacements =
     [(''furthermore,'', ''plus,''), (''moreover,'', ''also,''), (''in conclusion,'', ''so,''),
      (''additionally,'', ''also,''), (''consequently,'', ''so,''), (''subsequently,'', ''later,''),
      (''therefore,'', ''so,''), (''thus,'', ''so,''), (''hence,'', ''so,''),
      (''accordingly,'', ''so,''), (''nevertheless,'', ''but,''), (''nonetheless,'', ''but,''),
      (''it is important to note that'', ''note that''),
      (''it should be noted that'', ''worth noting that''),
      (''it is worth mentioning that'', ''worth mentioning that'')]"

definition removeRoboticTransitions :: "string \<Rightarrow> string" where
  "removeRoboticTransitions txt =
     fold (\<lambda>(robotic, natural) result. replaceAll (literalRule robotic natural) None result)
       roboticReplacements txt"

subsection \<open>The tones\<close>

fun markerLoop :: "string list \<Rightarrow> string \<Rightarrow> real \<Rightarrow> string list \<Rightarrow> rng \<Rightarrow> string list \<times> rng" where
  \<comment> \<open>the loop of \<^verbatim>\<open>makeCasual\<close>, \<^verbatim>\<open>makeAcademic\<close> and \<^verbatim>\<open>makeCreative\<close>\<close>
  "markerLoop markers sep intensity [] g = ([], g)"
| "markerLoop markers sep intensity (sentence # rest) g =
     (case random g of
        (x, g1) \<Rightarrow>
          if x < intensity then
            (case randomIndex (length markers) g1 of
               (k, g2) \<Rightarrow>
                 (case markerLoop markers sep intensity rest g2 of
                    (out, g3) \<Rightarrow> ((markers ! k @ sep @ lowerFirst sentence) # out, g3)))
          else (case markerLoop markers sep intensity rest g1 of
                  (out, g2) \<Rightarrow> (sentence # out, g2)))"

definition markSentences :: "string list \<Rightarrow> string \<Rightarrow> real \<Rightarrow> string \<Rightarrow> rng \<Rightarrow> string \<times> rng" where
  "markSentences markers sep intensity txt g =
     (case markerLoop markers sep intensity (matchSentences txt) g of
        (processed, g') \<Rightarrow> (joinWith '' '' processed, g'))"

definition makeCasual :: "string \<Rightarrow> strength \<Rightarrow> rng \<Rightarrow> string \<times> rng" where
  "makeCasual txt st g =
     markSentences
       [''honestly'', ''look'', ''you know'', ''like'', ''actually'', ''basically'', ''literally'',
        ''seriously'']
       '', '' (if st = Aggressive then 0.25 else if st = Medium then 0.15 else 0.1) txt g"

definition makeProfessional :: "string \<Rightarrow> strength \<Rightarrow> string" where
  "makeProfessional txt st =
     (let result = replaceAll (wordRule True ''kinda'' (\<lambda>m. ''somewhat'')) None txt;
          result = replaceAll (wordRule True ''gonna'' (\<lambda>m. ''going to'')) None result;
          result = replaceAll (wordRule True ''wanna'' (\<lambda>m. ''want to'')) None result;
          result = replaceAll (wordRule True ''yeah'' (\<lambda>m. ''yes'')) None result;
          result = replaceAll (wordRule True ''nope'' (\<lambda>m. ''no'')) None result
      in result)"

definition makeAcademic :: "string \<Rightarrow> strength \<Rightarrow> rng \<Rightarrow> string \<times> rng" where
  "makeAcademic txt st g =
     markSentences
       [''interestingly'', ''notably'', ''it's worth noting'', ''this suggests'', ''significantly'',
        ''evidently'']
       '', '' (if st = Aggressive then 0.15 else if st = Medium then 0.1 else 0.05) txt g"

definition makeCreative :: "string \<Rightarrow> strength \<Rightarrow> rng \<Rightarrow> string \<times> rng" where
  "makeCreative txt st g =
     markSentences
       [''imagine'', ''picture this'', ''here's what's interesting'', ''the beauty is'',
        ''get this'', ''check it out'']
       '' - '' (if st = Aggressive then 0.2 else if st = Medium then 0.12 else 0.08) txt g"

definition applyToneTransformations :: "string \<Rightarrow> tone \<Rightarrow> strength \<Rightarrow> rng \<Rightarrow> string \<times> rng" where
  "applyToneTransformations txt tn st g =
     (case tn of
        Casual \<Rightarrow> makeCasual txt st g
      | Professional \<Rightarrow> (makeProfessional txt st, g)
      | Academic \<Rightarrow> makeAcademic txt st g
      | Creative \<Rightarrow> makeCreative txt st g)"

subsection \<open>addNaturalFlow and injectPersonality\<close>

definition emphasisWords :: "tone \<Rightarrow> string list" where
  "emphasisWords tn =
     (case tn of
        Casual \<Rightarrow> [''really'', ''actually'', ''honestly'', ''totally'', ''definitely'', ''pretty'']
      | Professional \<Rightarrow> [''certainly'', ''indeed'', ''clearly'', ''notably'', ''particularly'']
      | Academic \<Rightarrow>
          [''significantly'', ''particularly'', ''notably'', ''especially'', ''considerably'']
      | Creative \<Rightarrow>
          [''incredibly'', ''amazingly'', ''beautifully'', ''remarkably'', ''strikingly''])"

definition auxiliaryPattern :: matcher where
  \<comment> \<open>\<^verbatim>\<open>/\b(is|are|was|were|has|have)\b/gi\<close>\<close>
  "auxiliaryPattern prev s =
     (if wordBefore prev then None
      else map_option length
        (List.find (\<lambda>a. wordCI a s) [''is'', ''are'', ''was'', ''were'', ''has'', ''have'']))"

definition emphasize :: "string list \<Rightarrow> real \<Rightarrow> string \<Rightarrow> rng \<Rightarrow> string \<times> rng" where
  \<comment> \<open>the callback of line 637\<close>
  "emphasize ws intensity m g =
     (case random g of
        (x, g1) \<Rightarrow>
          if x < intensity
          then (case randomIndex (length ws) g1 of (k, g2) \<Rightarrow> (ws ! k @ '' '' @ m, g2))
          else (m, g1))"

definition addNaturalFlow :: "string \<Rightarrow> tone \<Rightarrow> strength \<Rightarrow> rng \<Rightarrow> string \<times> rng" where
  "addNaturalFlow txt tn st g =
     replaceAllRnd auxiliaryPattern
       (emphasize (emphasisWords tn)
          (if st = Aggressive then 0.15 else if st = Medium then 0.1 else 0.05))
       None txt g"

definition personalTouches :: "tone \<Rightarrow> string list" where
  "personalTouches tn =
     (case tn of
        Casual \<Rightarrow> [''Let me tell you'', ''Here's the deal'', ''The thing is'', ''You see'']
      | Professional \<Rightarrow>
          [''It's important to understand'', ''Consider this'', ''What we're seeing is'']
      | Academic \<Rightarrow> [''It bears mentioning'', ''One must consider'', ''The evidence suggests'']
      | Creative \<Rightarrow>
          [''Here's what's wild'', ''The fascinating part is'', ''You won't believe this''])"

definition injectPersonality :: "string \<Rightarrow> tone \<Rightarrow> rng \<Rightarrow> string \<times> rng" where
  "injectPersonality txt tn g =
     (let touches = personalTouches tn;
          sentences = matchSentences txt
      in if 2 < length sentences then
           (case random g of
              (x, g1) \<Rightarrow>
                if x < 0.3 then
                  (case randomIndex (length sentences) g1 of
                     (insertPoint, g2) \<Rightarrow>
                       (case randomIndex (length touches) g2 of
                          (k, g3) \<Rightarrow>
                            (joinWith '' ''
                               (sentences[insertPoint :=
                                  touches ! k @ '' - '' @ lowerFirst (sentences ! insertPoint)]),
                             g3)))
                else (joinWith '' '' sentences, g1))
         else (joinWith '' '' sentences, g))"

section \<open>applyHumanization\<close>

text \<open>
  The tone and the strength are the values the command line accepts (lines 764 and 773).
  \<^verbatim>\<open>reduceRepetition\<close> can throw, so a pass returns an error or the text with the rest of the
  random source.
\<close>

definition humanizePass ::
  "tone \<Rightarrow> strength \<Rightarrow> analysis \<Rightarrow> string \<Rightarrow> rng \<Rightarrow> error + (string \<times> rng)" where
  \<comment> \<open>the body of the loop, lines 225 to 251\<close>
  "humanizePass tn st an txt g =
     (let result = (if 0.1 < formalityScore an then reduceFormality txt tn st else txt)
      in case (if 0.05 < repetitionScore an then reduceRepetition result st g
               else Inr (result, g)) of
        Inl e \<Rightarrow> Inl e
      | Inr (result, g) \<Rightarrow>
          (case (if 0.2 < passiveScore an then convertPassiveToActive result st g
                 else (result, g)) of
             (result, g) \<Rightarrow>
               (case (if sentenceVariety an < 0.4 then varySentenceStructure result st g
                      else (result, g)) of
                  (result, g) \<Rightarrow>
                    (case (if contractionScore an < 0.2 then addContractions result st g
                           else (result, g)) of
                       (result, g) \<Rightarrow>
                         (case applyToneTransformations (removeRoboticTransitions result) tn st g of
                            (result, g) \<Rightarrow>
                              (case addNaturalFlow result tn st g of
                                 (result, g) \<Rightarrow>
                                   Inr (if st = Aggressive then injectPersonality result tn g
                                        else (result, g))))))))"

fun humanizeLoop ::
  "nat \<Rightarrow> tone \<Rightarrow> strength \<Rightarrow> analysis \<Rightarrow> string \<Rightarrow> rng \<Rightarrow> error + (string \<times> rng)" where
  \<comment> \<open>\<^verbatim>\<open>for (let pass = 0; pass < passes; pass++)\<close>, by the number of passes left\<close>
  "humanizeLoop 0 tn st an result g = Inr (result, g)"
| "humanizeLoop (Suc n) tn st an result g =
     (case humanizePass tn st an result g of
        Inl e \<Rightarrow> Inl e
      | Inr (result', g') \<Rightarrow> humanizeLoop n tn st an result' g')"

definition applyHumanization ::
  "string \<Rightarrow> tone \<Rightarrow> strength \<Rightarrow> analysis \<Rightarrow> rng \<Rightarrow> error + (string \<times> rng)" where
  "applyHumanization txt tn st an g =
     (let passes = (if st = Aggressive then 3 else if st = Medium then 2 else 1 :: nat)
      in case humanizeLoop passes tn st an txt g of
           Inl e \<Rightarrow> Inl e
         | Inr (result, g') \<Rightarrow> Inr (finalPolish result, g'))"

section \<open>Predicates and inputs of the statements\<close>

definition boundaryText :: string where
  \<comment> \<open>100 words, 3 of them formal\<close>
  "boundaryText = ''utilize utilize utilize'' @ concat (replicate 97 '' a'')"

definition quietAnalysis :: analysis where
  \<comment> \<open>an analysis that closes every gate of \<^verbatim>\<open>applyHumanization\<close>\<close>
  "quietAnalysis =
     \<lparr> aiPatterns = [], formalityScore = 0, repetitionScore = 0, passiveCount = 0,
       passiveScore = 0, sentenceVariety = 1, starterScore = 0, contractionScore = 1,
       transitionScore = 0, vocabDiversity = 1, overallAIScore = 0,
       detailedMetrics =
         \<lparr> totalWords = 0, totalSentences = 0, avgSentenceLength = JNum 0,
           uniqueWordRatio = JNum 0, contractionCount = 0, passiveVoiceInstances = 0 \<rparr> \<rparr>"

definition twoParagraphs :: string where
  \<comment> \<open>two paragraphs, a blank line between them, a tab, and a space before the full stop\<close>
  "twoParagraphs =
     [CHR ''o'', CHR ''n'', CHR ''e'', CHR 0x0A, CHR 0x0A, CHR 0x09, CHR ''t'', CHR ''w'',
      CHR ''o'', CHR '' '', CHR ''.'', CHR 0x0A]"

definition repeatedConstructor :: string where
  \<comment> \<open>a word that is the name of an inherited property, three times\<close>
  "repeatedConstructor = ''Constructor Constructor Constructor''"

function wordRuns :: "string \<Rightarrow> string list" where
  \<comment> \<open>the maximal runs of word characters: the words that \<^verbatim>\<open>\b\<close> delimits\<close>
  "wordRuns [] = []"
| "wordRuns (c # cs) =
     (if isWordChar c then (c # takeWhile isWordChar cs) # wordRuns (dropWhile isWordChar cs)
      else wordRuns cs)"
  by pat_completeness auto
termination
  by (relation "measure length") (auto simp: le_imp_less_Suc length_dropWhile_le)

definition lowerRuns :: "string \<Rightarrow> string list" where
  "lowerRuns s = map toLowerCase (wordRuns s)"


definition sameWords :: "string \<Rightarrow> string \<Rightarrow> bool" where
  \<comment> \<open>the same words up to case, and a word character at the start of both or of neither\<close>
  "sameWords s t = (lowerRuns s = lowerRuns t \<and> wordAt s = wordAt t)"


fun tidy :: "bool \<Rightarrow> string \<Rightarrow> bool" where
  \<comment> \<open>white space is the space character, never twice in a row; the flag says that a space
      comes just before the string\<close>
  "tidy p [] = True"
| "tidy p (c # cs) =
     (if isSpace c then c = CHR '' '' \<and> \<not> p \<and> tidy True cs else tidy False cs)"

definition caseVariant :: "string \<Rightarrow> string \<Rightarrow> bool" where
  \<comment> \<open>\<open>t\<close> is \<open>s\<close> with some characters in upper case\<close>
  "caseVariant s t = list_all2 (\<lambda>a b. b = a \<or> b = toUpperChar a) s t"

definition singleSpaced :: "string \<Rightarrow> bool" where
  \<comment> \<open>no line feed and no tab, no white space but the space character, no two spaces in a
      row, no white space at either end\<close>
  "singleSpaced out =
     (CHR 0x0A \<notin> set out \<and> CHR 0x09 \<notin> set out
      \<and> (\<forall>c \<in> set out. isSpace c \<longrightarrow> c = CHR '' '')
      \<and> \<not> (\<exists>i. Suc i < length out \<and> out ! i = CHR '' '' \<and> out ! Suc i = CHR '' '')
      \<and> \<not> spaceAt out \<and> \<not> spaceAt (rev out))"

section \<open>Properties of the analyzer\<close>

subsection \<open>Tokens of blank text\<close>

lemma isSpace_toLowerChar: "isSpace (toLowerChar c) = isSpace c"
  by (auto simp: isSpace_def toLowerChar_def upperAlpha_def lowerAlpha_def
      split: option.splits if_splits)

lemma splitRuns_all: "list_all P s \<Longrightarrow> filter (\<lambda>w. 0 < length w) (splitRuns P s) = []"
proof (cases s)
  case Nil
  then show ?thesis by simp
next
  case (Cons a list)
  assume all: "list_all P s"
  from all Cons have a: "P a" by simp
  from all Cons have "\<forall>x\<in>set list. P x" by (simp add: list_all_iff)
  then have d: "dropWhile P list = []" by (simp only: dropWhile_eq_Nil_conv)
  show ?thesis unfolding Cons by (simp only: splitRuns.simps a d if_True) simp
qed

lemma splitWords_blank: "list_all isSpace txt \<Longrightarrow> splitWords txt = []"
  unfolding splitWords_def
  by (rule splitRuns_all) (simp add: toLowerCase_def list_all_iff isSpace_toLowerChar)

subsection \<open>Bounds of the metrics\<close>

lemma bump_sum: "sum_list (map snd (bump m k)) = Suc (sum_list (map snd m))"
  by (induction m k rule: bump.induct) auto

lemma countWords_sum:
  "sum_list (map snd (fst (countWords ws (wf0, pf0)))) \<le> sum_list (map snd wf0) + length ws"
proof (induction ws arbitrary: wf0 pf0)
  case Nil
  then show ?case by simp
next
  case (Cons w ws)
  let ?wf = "if 3 < length w then bump wf0 w else wf0"
  let ?pf = "case ws of [] \<Rightarrow> pf0 | nxt # _ \<Rightarrow> bump pf0 (w @ '' '' @ nxt)"
  have "sum_list (map snd (fst (countWords ws (?wf, ?pf)))) \<le> sum_list (map snd ?wf) + length ws"
    by (rule Cons.IH)
  moreover have "sum_list (map snd ?wf) \<le> Suc (sum_list (map snd wf0))"
    by (simp add: bump_sum)
  moreover have "countWords (w # ws) (wf0, pf0) = countWords ws (?wf, ?pf)"
    by (simp only: countWords.simps)
  ultimately show ?case by simp
qed

lemma wordFreq_total: "sum_list (map snd (fst (countWords ws ([], [])))) \<le> length ws"
  using countWords_sum[of ws "[]" "[]"] by simp

lemma repetition_terms:
  "sum_list (map (\<lambda>f. if 2 < f then (real f - 2) * 0.5 else 0) fs) \<le> real (sum_list fs) / 2"
  by (induction fs) (auto simp: field_simps)

lemma repetition_terms_nonneg:
  "0 \<le> sum_list (map (\<lambda>f. if 2 < f then (real f - 2) * 0.5 else 0) fs)"
  by (induction fs) (auto simp: field_simps)

lemma repetitionOf_bounds:
  assumes "wrds \<noteq> []"
  shows "0 \<le> repetitionOf wrds" and "repetitionOf wrds \<le> 1"
proof -
  let ?fs = "map snd (fst (countWords wrds ([], [])))"
  let ?S = "sum_list (map (\<lambda>f. if 2 < f then (real f - 2) * 0.5 else 0) ?fs)"
  have n: "0 < length wrds" using assms by simp
  have "0 \<le> ?S" by (rule repetition_terms_nonneg)
  then show "0 \<le> repetitionOf wrds" by (simp add: repetitionOf_def)
  have "?S \<le> real (sum_list ?fs) / 2" by (rule repetition_terms)
  also have "\<dots> \<le> real (length wrds)" using wordFreq_total[of wrds] by simp
  finally show "repetitionOf wrds \<le> 1" using n by (simp add: repetitionOf_def divide_le_eq)
qed

lemma formalityOf_bounds: "0 \<le> formalityOf wrds" "formalityOf wrds \<le> 1"
  by (simp_all add: formalityOf_def)

lemma perSentence_nonneg: "0 \<le> perSentence n sentences"
  by (simp add: perSentence_def)

lemma variance_nonneg: "0 \<le> variance xs"
  unfolding variance_def by (intro divide_nonneg_nonneg sum_list_nonneg) auto

lemma sentenceVarietyOf_bounds: "0 \<le> sentenceVarietyOf ss" "sentenceVarietyOf ss \<le> 1"
  by (simp_all add: sentenceVarietyOf_def Let_def variance_nonneg)

lemma vocabDiversityOf_bounds:
  assumes "wrds \<noteq> []"
  shows "0 \<le> vocabDiversityOf wrds" and "vocabDiversityOf wrds \<le> 1"
proof -
  show "0 \<le> vocabDiversityOf wrds" by (simp add: vocabDiversityOf_def)
  have "length (remdups wrds) \<le> length wrds" by (rule length_remdups_leq)
  then show "vocabDiversityOf wrds \<le> 1" using assms by (simp add: vocabDiversityOf_def)
qed

subsection \<open>The two branches of the analyzer\<close>

lemma analyze_degenerate:
  "splitWords txt = [] \<or> splitSentences txt = [] \<Longrightarrow>
     analyzeAIPatterns txt = insufficient (splitSentences txt) (splitWords txt)"
  by (erule disjE) (simp_all add: analyzeAIPatterns_def Let_def split del: if_split)

lemma analyze_fields:
  assumes "splitWords txt \<noteq> []" and "splitSentences txt \<noteq> []"
  shows "formalityScore (analyzeAIPatterns txt) = formalityOf (splitWords txt)"
    and "repetitionScore (analyzeAIPatterns txt) = repetitionOf (splitWords txt)"
    and "passiveCount (analyzeAIPatterns txt) = passiveCountOf txt"
    and "passiveScore (analyzeAIPatterns txt)
           = min (perSentence (passiveCountOf txt) (splitSentences txt)) 1"
    and "sentenceVariety (analyzeAIPatterns txt) = sentenceVarietyOf (splitSentences txt)"
    and "starterScore (analyzeAIPatterns txt)
           = min (perSentence (starterRepetitionOf (splitSentences txt)) (splitSentences txt)) 1"
    and "contractionScore (analyzeAIPatterns txt)
           = perSentence (contractionCountOf txt) (splitSentences txt)"
    and "transitionScore (analyzeAIPatterns txt) = min (real (transitionCountOf txt) / 3) 1"
    and "vocabDiversity (analyzeAIPatterns txt) = vocabDiversityOf (splitWords txt)"
  using assms by (simp_all add: analyzeAIPatterns_def Let_def)

lemma analyze_overall:
  assumes "splitWords txt \<noteq> []" and "splitSentences txt \<noteq> []"
  shows "overallAIScore (analyzeAIPatterns txt) =
     min (formalityOf (splitWords txt) * 0.20 + repetitionOf (splitWords txt) * 0.15
        + min (perSentence (passiveCountOf txt) (splitSentences txt)) 1 * 0.15
        + (1 - sentenceVarietyOf (splitSentences txt)) * 0.15
        + min (perSentence (starterRepetitionOf (splitSentences txt)) (splitSentences txt)) 1 * 0.10
        + (if perSentence (contractionCountOf txt) (splitSentences txt) < 0.1 then 0.8 else 0) * 0.10
        + min (real (transitionCountOf txt) / 3) 1 * 0.10
        + (if vocabDiversityOf (splitWords txt) < 0.5 then 0.6 else 0) * 0.05) 1"
  using assms by (simp add: analyzeAIPatterns_def Let_def)

lemma bex_if_single: "(\<exists>p \<in> set (if c then [e] else []). P p) = (c \<and> P e)"
  by simp

lemma high_formality_flag:
  assumes "splitWords txt \<noteq> []" and "splitSentences txt \<noteq> []"
  shows "(\<exists>p \<in> set (aiPatterns (analyzeAIPatterns txt)). prefix ''High formality level detected'' p)
           = (0.15 < formalityOf (splitWords txt))"
  using assms
  by (simp add: analyzeAIPatterns_def Let_def bex_Un bex_if_single split del: if_split)

subsection \<open>The composite score\<close>

text \<open>
  C1. For a text with at least one word and one sentence, \<open>overallAIScore\<close> is the weighted
  sum of the scores of the record, capped at 1: 0.20 formality, 0.15 repetition, 0.15
  passive, 0.15 of one minus the variety, 0.10 starters, 0.10 of the lack of contractions
  (0.8 when \<open>contractionScore < 0.1\<close>, else 0), 0.10 transitions and 0.05 of the low
  diversity (0.6 when \<open>vocabDiversity < 0.5\<close>, else 0).
\<close>

theorem overallAIScore_formula:
  assumes "splitWords txt \<noteq> []" and "splitSentences txt \<noteq> []"
  shows "overallAIScore (analyzeAIPatterns txt) =
     min (0.20 * formalityScore (analyzeAIPatterns txt)
        + 0.15 * repetitionScore (analyzeAIPatterns txt)
        + 0.15 * passiveScore (analyzeAIPatterns txt)
        + 0.15 * (1 - sentenceVariety (analyzeAIPatterns txt))
        + 0.10 * starterScore (analyzeAIPatterns txt)
        + 0.10 * (if contractionScore (analyzeAIPatterns txt) < 0.1 then 0.8 else 0)
        + 0.10 * transitionScore (analyzeAIPatterns txt)
        + 0.05 * (if vocabDiversity (analyzeAIPatterns txt) < 0.5 then 0.6 else 0)) 1"
  unfolding analyze_fields[OF assms] analyze_overall[OF assms]
  by (simp only: mult.commute)

theorem overallAIScore_formula_witness:
  "splitWords ''Hi there.'' \<noteq> [] \<and> splitSentences ''Hi there.'' \<noteq> []
   \<and> overallAIScore (analyzeAIPatterns ''Hi there.'') = 0.23"
proof -
  have w: "splitWords ''Hi there.'' = [''hi'', ''there.'']" by code_simp
  have s: "splitSentences ''Hi there.'' = [''Hi there'']" by code_simp
  have nw: "splitWords ''Hi there.'' \<noteq> []" and ns: "splitSentences ''Hi there.'' \<noteq> []"
    by (simp_all add: w s)
  have f: "formalityOf [''hi'', ''there.''] = 0" by code_simp
  have r: "repetitionOf [''hi'', ''there.''] = 0" by code_simp
  have p: "passiveCountOf ''Hi there.'' = 0" by code_simp
  have v: "sentenceVarietyOf [''Hi there''] = 0"
    by (simp add: sentenceVarietyOf_def variance_def mean_def)
  have st: "starterRepetitionOf [''Hi there''] = 0" by code_simp
  have c: "contractionCountOf ''Hi there.'' = 0" by code_simp
  have t: "transitionCountOf ''Hi there.'' = 0" by code_simp
  have d: "vocabDiversityOf [''hi'', ''there.''] = 1" by code_simp
  have "overallAIScore (analyzeAIPatterns ''Hi there.'') = 0.23"
    using overallAIScore_formula[OF nw ns]
    by (simp add: analyze_fields[OF nw ns] w s f r p v st c t d perSentence_def)
  with nw ns show ?thesis by simp
qed

subsection \<open>The range of the scores\<close>

text \<open>
  C2. For every text, the scores \<open>formalityScore\<close>, \<open>repetitionScore\<close>, \<open>passiveScore\<close>,
  \<open>sentenceVariety\<close>, \<open>starterScore\<close>, \<open>vocabDiversity\<close>, \<open>transitionScore\<close> and
  \<open>overallAIScore\<close> of the record lie between 0 and 1; \<open>contractionScore\<close> is not
  negative, and there is a text where it is above 1.
\<close>

theorem scores_in_unit_interval:
  "((0 \<le> formalityScore (analyzeAIPatterns txt) \<and> formalityScore (analyzeAIPatterns txt) \<le> 1)
   \<and> (0 \<le> repetitionScore (analyzeAIPatterns txt) \<and> repetitionScore (analyzeAIPatterns txt) \<le> 1)
   \<and> (0 \<le> passiveScore (analyzeAIPatterns txt) \<and> passiveScore (analyzeAIPatterns txt) \<le> 1)
   \<and> (0 \<le> sentenceVariety (analyzeAIPatterns txt) \<and> sentenceVariety (analyzeAIPatterns txt) \<le> 1)
   \<and> (0 \<le> starterScore (analyzeAIPatterns txt) \<and> starterScore (analyzeAIPatterns txt) \<le> 1)
   \<and> (0 \<le> vocabDiversity (analyzeAIPatterns txt) \<and> vocabDiversity (analyzeAIPatterns txt) \<le> 1)
   \<and> (0 \<le> transitionScore (analyzeAIPatterns txt) \<and> transitionScore (analyzeAIPatterns txt) \<le> 1)
   \<and> (0 \<le> overallAIScore (analyzeAIPatterns txt) \<and> overallAIScore (analyzeAIPatterns txt) \<le> 1)
   \<and> 0 \<le> contractionScore (analyzeAIPatterns txt))
   \<and> (\<exists>t. 1 < contractionScore (analyzeAIPatterns t))"
proof
  show "(0 \<le> formalityScore (analyzeAIPatterns txt) \<and> formalityScore (analyzeAIPatterns txt) \<le> 1)
   \<and> (0 \<le> repetitionScore (analyzeAIPatterns txt) \<and> repetitionScore (analyzeAIPatterns txt) \<le> 1)
   \<and> (0 \<le> passiveScore (analyzeAIPatterns txt) \<and> passiveScore (analyzeAIPatterns txt) \<le> 1)
   \<and> (0 \<le> sentenceVariety (analyzeAIPatterns txt) \<and> sentenceVariety (analyzeAIPatterns txt) \<le> 1)
   \<and> (0 \<le> starterScore (analyzeAIPatterns txt) \<and> starterScore (analyzeAIPatterns txt) \<le> 1)
   \<and> (0 \<le> vocabDiversity (analyzeAIPatterns txt) \<and> vocabDiversity (analyzeAIPatterns txt) \<le> 1)
   \<and> (0 \<le> transitionScore (analyzeAIPatterns txt) \<and> transitionScore (analyzeAIPatterns txt) \<le> 1)
   \<and> (0 \<le> overallAIScore (analyzeAIPatterns txt) \<and> overallAIScore (analyzeAIPatterns txt) \<le> 1)
   \<and> 0 \<le> contractionScore (analyzeAIPatterns txt)"
  proof (cases "splitWords txt = [] \<or> splitSentences txt = []")
    case True
    then show ?thesis by (simp add: analyze_degenerate insufficient_def)
  next
    case False
    then have w: "splitWords txt \<noteq> []" and s: "splitSentences txt \<noteq> []" by auto
    note fl = analyze_fields[OF w s]
    note rb = repetitionOf_bounds[OF w]
    note vb = vocabDiversityOf_bounds[OF w]
    note sb = sentenceVarietyOf_bounds[of "splitSentences txt"]
    note fb = formalityOf_bounds[of "splitWords txt"]
    have o1: "overallAIScore (analyzeAIPatterns txt) \<le> 1"
      unfolding analyze_overall[OF w s] by simp
    have o0: "0 \<le> overallAIScore (analyzeAIPatterns txt)"
      unfolding analyze_overall[OF w s] using rb vb sb fb
        perSentence_nonneg[of "passiveCountOf txt" "splitSentences txt"]
        perSentence_nonneg[of "starterRepetitionOf (splitSentences txt)" "splitSentences txt"]
      by (auto simp: min_def)
    show ?thesis
      unfolding fl using rb vb sb fb o0 o1 perSentence_nonneg by (simp add: min_def)
  qed
next
  let ?t = "''I'm I'm''"
  have w: "splitWords ?t \<noteq> []" by code_simp
  have s: "splitSentences ?t = [?t]" by code_simp
  have c: "contractionCountOf ?t = 2" by code_simp
  have "contractionScore (analyzeAIPatterns ?t) = 2"
    using w s by (simp add: analyze_fields(7) c perSentence_def)
  then have "1 < contractionScore (analyzeAIPatterns ?t)" by simp
  then show "\<exists>t. 1 < contractionScore (analyzeAIPatterns t)" ..
qed

subsection \<open>Insufficient text\<close>

text \<open>
  C3. For a text that is empty, that is white space only, or that has no word or no
  sentence after the filtering, the analyzer returns the record whose scores are all 0
  and whose pattern list is the one entry "Insufficient text for analysis". The analyzer
  is a total function: no input makes it throw.
\<close>

theorem insufficient_text:
  assumes "txt = [] \<or> list_all isSpace txt \<or> splitWords txt = [] \<or> splitSentences txt = []"
  shows "aiPatterns (analyzeAIPatterns txt) = [''Insufficient text for analysis'']
     \<and> formalityScore (analyzeAIPatterns txt) = 0
     \<and> repetitionScore (analyzeAIPatterns txt) = 0
     \<and> passiveScore (analyzeAIPatterns txt) = 0
     \<and> sentenceVariety (analyzeAIPatterns txt) = 0
     \<and> starterScore (analyzeAIPatterns txt) = 0
     \<and> contractionScore (analyzeAIPatterns txt) = 0
     \<and> transitionScore (analyzeAIPatterns txt) = 0
     \<and> vocabDiversity (analyzeAIPatterns txt) = 0
     \<and> overallAIScore (analyzeAIPatterns txt) = 0"
proof -
  from assms have "splitWords txt = [] \<or> splitSentences txt = []"
    using splitWords_blank[of "txt"] by auto
  then show ?thesis by (simp add: analyze_degenerate insufficient_def)
qed

theorem insufficient_text_witness:
  "list_all isSpace [CHR '' '', CHR 0x0A, CHR 0x09]
   \<and> aiPatterns (analyzeAIPatterns [CHR '' '', CHR 0x0A, CHR 0x09])
       = [''Insufficient text for analysis'']
   \<and> overallAIScore (analyzeAIPatterns [CHR '' '', CHR 0x0A, CHR 0x09]) = 0"
proof -
  have b: "list_all isSpace [CHR '' '', CHR 0x0A, CHR 0x09]" by (simp add: isSpace_def)
  then show ?thesis using insufficient_text[of "[CHR '' '', CHR 0x0A, CHR 0x09]"] by simp
qed

text \<open>
  C9. The record for insufficient text reports the counts of the tokens that were found,
  not zeros: for a text with a word and no sentence, such as ".", \<open>totalWords\<close> is the
  number of words, which is positive, while the scores are 0 and the pattern list is the
  one entry "Insufficient text for analysis".
\<close>

theorem insufficient_reports_counts:
  assumes "splitWords txt \<noteq> []" and "splitSentences txt = []"
  shows "totalWords (detailedMetrics (analyzeAIPatterns txt)) = length (splitWords txt)
     \<and> 0 < totalWords (detailedMetrics (analyzeAIPatterns txt))
     \<and> totalSentences (detailedMetrics (analyzeAIPatterns txt)) = 0
     \<and> aiPatterns (analyzeAIPatterns txt) = [''Insufficient text for analysis'']
     \<and> formalityScore (analyzeAIPatterns txt) = 0
     \<and> repetitionScore (analyzeAIPatterns txt) = 0
     \<and> passiveScore (analyzeAIPatterns txt) = 0
     \<and> sentenceVariety (analyzeAIPatterns txt) = 0
     \<and> starterScore (analyzeAIPatterns txt) = 0
     \<and> contractionScore (analyzeAIPatterns txt) = 0
     \<and> transitionScore (analyzeAIPatterns txt) = 0
     \<and> vocabDiversity (analyzeAIPatterns txt) = 0
     \<and> overallAIScore (analyzeAIPatterns txt) = 0"
  using assms by (simp add: analyze_degenerate insufficient_def)

theorem insufficient_reports_counts_witness:
  "splitWords ''.'' \<noteq> [] \<and> splitSentences ''.'' = []
   \<and> totalWords (detailedMetrics (analyzeAIPatterns ''.'')) = 1
   \<and> overallAIScore (analyzeAIPatterns ''.'') = 0
   \<and> aiPatterns (analyzeAIPatterns ''.'') = [''Insufficient text for analysis'']"
proof -
  have w: "splitWords ''.'' = [''.'']" by code_simp
  have s: "splitSentences ''.'' = []" by code_simp
  have nw: "splitWords ''.'' \<noteq> []" by (simp add: w)
  show ?thesis using insufficient_reports_counts[OF nw s] by (simp add: w s)
qed

subsection \<open>The formality flag\<close>

text \<open>
  C6, as the code has it. For a text with at least one word and one sentence whose
  density of formal words satisfies \<open>formalCount / wordCount * 5 > 0.15\<close> (words are the
  lower-cased tokens between white space, counted when equal to a dictionary entry), the
  pattern list has an entry that begins with "High formality level detected". At the
  density 0.15 itself the entry is absent: the comparison of line 146 is strict.
\<close>

theorem high_formality_flagged:
  assumes "splitWords txt \<noteq> []" and "splitSentences txt \<noteq> []"
    and "0.15 < real (formalCountOf (splitWords txt)) / real (length (splitWords txt)) * 5"
  shows "\<exists>p \<in> set (aiPatterns (analyzeAIPatterns txt)).
           prefix ''High formality level detected'' p"
  using assms by (simp add: high_formality_flag formalityOf_def)

theorem high_formality_flagged_witness:
  "splitWords ''We utilize it.'' \<noteq> [] \<and> splitSentences ''We utilize it.'' \<noteq> []
   \<and> 0.15 < real (formalCountOf (splitWords ''We utilize it.''))
             / real (length (splitWords ''We utilize it.'')) * 5
   \<and> (\<exists>p \<in> set (aiPatterns (analyzeAIPatterns ''We utilize it.'')).
           prefix ''High formality level detected'' p)"
proof -
  have w: "splitWords ''We utilize it.'' = [''we'', ''utilize'', ''it.'']" by code_simp
  have s: "splitSentences ''We utilize it.'' \<noteq> []" by code_simp
  have f: "formalCountOf [''we'', ''utilize'', ''it.''] = 1" by code_simp
  have nw: "splitWords ''We utilize it.'' \<noteq> []" by (simp add: w)
  have d: "0.15 < real (formalCountOf (splitWords ''We utilize it.''))
             / real (length (splitWords ''We utilize it.'')) * 5"
    by (simp add: w f)
  show ?thesis using high_formality_flagged[OF nw s d] nw s d by blast
qed

theorem high_formality_boundary_counterexample:
  "splitWords boundaryText \<noteq> [] \<and> splitSentences boundaryText \<noteq> []
   \<and> 0.15 \<le> real (formalCountOf (splitWords boundaryText))
             / real (length (splitWords boundaryText)) * 5
   \<and> \<not> (\<exists>p \<in> set (aiPatterns (analyzeAIPatterns boundaryText)).
           prefix ''High formality level detected'' p)"
proof -
  have n: "length (splitWords boundaryText) = 100" by code_simp
  have f: "formalCountOf (splitWords boundaryText) = 3" by code_simp
  have s: "splitSentences boundaryText \<noteq> []" by code_simp
  have nw: "splitWords boundaryText \<noteq> []" using n by auto
  have "formalityOf (splitWords boundaryText) = 0.15" by (simp add: formalityOf_def n f)
  then have "\<not> (\<exists>p \<in> set (aiPatterns (analyzeAIPatterns boundaryText)).
           prefix ''High formality level detected'' p)"
    by (simp add: high_formality_flag[OF nw s])
  then show ?thesis using nw s by (simp add: n f)
qed

section \<open>Properties of the final polish\<close>

subsection \<open>White space of the result\<close>

lemma isSpace_toUpperChar: "isSpace (toUpperChar c) = isSpace c"
  by (auto simp: isSpace_def toUpperChar_def upperAlpha_def lowerAlpha_def
      split: option.splits if_splits)

lemma toUpperChar_space: "(toUpperChar c = CHR '' '') = (c = CHR '' '')"
  by (auto simp: toUpperChar_def upperAlpha_def lowerAlpha_def split: option.splits if_splits)

lemma space_is_space: "isSpace CHR '' ''"
  by (simp add: isSpace_def)

lemma punct_not_space: "isPunct c \<Longrightarrow> \<not> isSpace c"
  by (auto simp: isPunct_def isSpace_def)

lemma spaceAt_simps [simp]:
  "spaceAt [] = False" "spaceAt (c # cs) = isSpace c"
  by (simp_all add: spaceAt_def)

lemma tidy_weaken: "tidy p s \<Longrightarrow> tidy False s"
  by (cases s) auto

lemma tidy_True_iff: "tidy True s = (tidy False s \<and> \<not> spaceAt s)"
  by (cases s) auto

lemma tidy_append: "tidy p (xs @ ys) \<Longrightarrow> tidy p xs \<and> tidy False ys"
proof (induction xs arbitrary: p)
  case Nil
  then show ?case by (auto dest: tidy_weaken)
next
  case (Cons a xs)
  then show ?case by (auto split: if_splits)
qed

lemma tidy_dropWhile: "tidy p s \<Longrightarrow> tidy False (dropWhile R s)"
  using tidy_append[of p "takeWhile R s" "dropWhile R s"] by simp

lemma not_spaceAt_dropWhile: "\<not> spaceAt (dropWhile isSpace s)"
  by (induction s) auto

lemma tidy_dropWhile_space: "tidy p s \<Longrightarrow> tidy True (dropWhile isSpace s)"
  by (simp add: tidy_True_iff tidy_dropWhile not_spaceAt_dropWhile)

lemma tidy_no_run: "tidy True cs \<Longrightarrow> dropWhile isSpace cs = cs"
  by (cases cs) (auto split: if_splits)

text \<open>step 1\<close>

lemma collapseSpaces_first: "\<not> spaceAt s \<Longrightarrow> \<not> spaceAt (collapseSpaces s)"
  by (cases s) auto

lemma tidy_collapseSpaces: "tidy False (collapseSpaces s)"
proof (induction s rule: collapseSpaces.induct)
  case 1
  then show ?case by simp
next
  case (2 c cs)
  show ?case
  proof (cases "isSpace c")
    case True
    have "\<not> spaceAt (collapseSpaces (dropWhile isSpace cs))"
      by (rule collapseSpaces_first) (rule not_spaceAt_dropWhile)
    with True 2 show ?thesis by (simp add: tidy_True_iff space_is_space)
  next
    case False
    with 2 show ?thesis by simp
  qed
qed

text \<open>steps 2, 10, 11\<close>

lemma removeSpaceBefore_tidy_step:
  assumes "isSpace c" and "\<not> spaceAt cs"
  shows "removeSpaceBefore P (c # cs) =
     (case cs of [] \<Rightarrow> [c]
      | d # ds \<Rightarrow> if P d then d # removeSpaceBefore P ds else c # removeSpaceBefore P cs)"
proof -
  have "dropWhile isSpace cs = cs" using assms(2) by (cases cs) auto
  then show ?thesis using assms(1) by (simp split: list.splits)
qed

lemma tidy_removeSpaceBefore: "tidy p s \<Longrightarrow> tidy p (removeSpaceBefore P s)"
proof (induction s arbitrary: p rule: length_induct)
  case (1 s)
  note IH = 1(1)[rule_format] and t = 1(2)
  show ?case
  proof (cases s)
    case Nil
    then show ?thesis by simp
  next
    case (Cons c cs)
    show ?thesis
    proof (cases "isSpace c")
      case False
      have "tidy False (removeSpaceBefore P cs)" using IH[of cs False] t Cons False by simp
      then show ?thesis using Cons False by simp
    next
      case True
      with t Cons have c: "c = CHR '' ''" "\<not> p" and tc: "tidy True cs" by auto
      have ns: "\<not> spaceAt cs" using tc by (simp add: tidy_True_iff)
      note step = removeSpaceBefore_tidy_step[OF True ns, of P]
      show ?thesis
      proof (cases cs)
        case Nil
        then show ?thesis using Cons step True c by simp
      next
        case cs: (Cons d ds)
        have nd: "\<not> isSpace d" and td: "tidy False ds" using tc cs by (auto split: if_splits)
        show ?thesis
        proof (cases "P d")
          case Pd: True
          have "tidy False (removeSpaceBefore P ds)" using IH[of ds False] td Cons cs by simp
          then show ?thesis unfolding Cons step using cs Pd nd by simp
        next
          case Pd: False
          have "tidy True (removeSpaceBefore P cs)" using IH[of cs True] tc Cons by simp
          then show ?thesis unfolding Cons step using cs Pd c True by simp
        qed
      qed
    qed
  qed
qed

text \<open>step 3\<close>

lemma spaceAfterPunct_first: "\<not> spaceAt s \<Longrightarrow> \<not> spaceAt (spaceAfterPunct s)"
  by (cases s) (auto simp: punct_not_space)

lemma tidy_spaceAfterPunct: "tidy p s \<Longrightarrow> tidy p (spaceAfterPunct s)"
proof (induction s arbitrary: p rule: length_induct)
  case (1 s)
  note IH = 1(1)[rule_format] and t = 1(2)
  show ?case
  proof (cases s)
    case Nil
    then show ?thesis by simp
  next
    case (Cons c cs)
    show ?thesis
    proof (cases "isPunct c")
      case True
      then have nc: "\<not> isSpace c" by (rule punct_not_space)
      have tc: "tidy False cs" using t Cons nc by simp
      have le: "length (dropWhile isSpace cs) < length s"
        using length_dropWhile_le[of isSpace cs] Cons by simp
      have "tidy True (spaceAfterPunct (dropWhile isSpace cs))"
        using IH[OF le tidy_dropWhile_space[OF tc]] .
      then show ?thesis using Cons True nc by (simp add: space_is_space)
    next
      case False
      show ?thesis
      proof (cases "isSpace c")
        case True
        with t Cons have "c = CHR '' ''" "\<not> p" "tidy True cs" by auto
        moreover from this have "tidy True (spaceAfterPunct cs)" using IH[of cs True] Cons by simp
        ultimately show ?thesis using Cons False True by simp
      next
        case ns: False
        then have "tidy False (spaceAfterPunct cs)" using IH[of cs False] t Cons by simp
        then show ?thesis using Cons False ns by simp
      qed
    qed
  qed
qed

text \<open>steps 4 to 6\<close>

lemma tidy_collapseChar: "\<not> isSpace d \<Longrightarrow> tidy p s \<Longrightarrow> tidy p (collapseChar d s)"
proof (induction s arbitrary: p rule: length_induct)
  case (1 s)
  note IH = 1(1)[rule_format] and d = 1(2) and t = 1(3)
  show ?case
  proof (cases s)
    case Nil
    then show ?thesis by simp
  next
    case (Cons c cs)
    show ?thesis
    proof (cases "c = d")
      case True
      have tc: "tidy False cs" using t Cons True d by simp
      have le: "length (dropWhile (\<lambda>x. x = d) cs) < length s"
        using length_dropWhile_le[of "\<lambda>x. x = d" cs] Cons by simp
      have "tidy False (collapseChar d (dropWhile (\<lambda>x. x = d) cs))"
        using IH[OF le d tidy_dropWhile[OF tc]] .
      then show ?thesis using Cons True d by simp
    next
      case False
      show ?thesis
      proof (cases "isSpace c")
        case True
        with t Cons have "c = CHR '' ''" "\<not> p" "tidy True cs" by auto
        moreover from this have "tidy True (collapseChar d cs)" using IH[of cs True] d Cons by simp
        ultimately show ?thesis using Cons False True by simp
      next
        case ns: False
        then have "tidy False (collapseChar d cs)" using IH[of cs False] d t Cons by simp
        then show ?thesis using Cons False ns by simp
      qed
    qed
  qed
qed

text \<open>steps 7 and 8 change the case of some characters\<close>

lemma caseVariant_refl: "caseVariant s s"
  by (simp add: caseVariant_def list_all2_refl)

lemma caseVariant_Cons: "caseVariant s t \<Longrightarrow> b = a \<or> b = toUpperChar a \<Longrightarrow> caseVariant (a # s) (b # t)"
  by (simp add: caseVariant_def)

lemma caseVariant_append: "caseVariant s t \<Longrightarrow> caseVariant u v \<Longrightarrow> caseVariant (s @ u) (t @ v)"
  by (simp add: caseVariant_def list_all2_appendI)

lemma caseVariant_capitalizeSentences: "caseVariant s (capitalizeSentences s)"
proof (induction s rule: length_induct)
  case (1 s)
  note IH = 1[rule_format]
  show ?case
  proof (cases s)
    case Nil
    then show ?thesis by (simp add: caseVariant_refl)
  next
    case (Cons c cs)
    have tl: "caseVariant cs (capitalizeSentences cs)" using IH[of cs] Cons by simp
    have plain: "caseVariant (c # cs) (c # capitalizeSentences cs)"
      using tl by (intro caseVariant_Cons) simp_all
    show ?thesis
    proof (cases "isTerminator c \<and> spaceAt cs")
      case False
      then have "capitalizeSentences (c # cs) = c # capitalizeSentences cs" by auto
      then show ?thesis using Cons plain by simp
    next
      case True
      show ?thesis
      proof (cases "dropWhile isSpace cs")
        case Nil
        have "capitalizeSentences (c # cs) = c # capitalizeSentences cs"
          by (simp add: True Nil)
        then show ?thesis using Cons plain by simp
      next
        case dw: (Cons d ds)
        show ?thesis
        proof (cases "isWordChar d")
          case False
          have "capitalizeSentences (c # cs) = c # capitalizeSentences cs"
            by (simp add: True dw False)
          then show ?thesis using Cons plain by simp
        next
          case w: True
          have eq: "capitalizeSentences (c # cs)
                  = c # takeWhile isSpace cs @ toUpperChar d # capitalizeSentences ds"
            by (simp add: True dw w)
          have "length ds < length s" using dropWhile_Cons_length[OF dw] Cons by simp
          then have ds: "caseVariant ds (capitalizeSentences ds)" by (rule IH)
          have cs: "cs = takeWhile isSpace cs @ d # ds"
            using takeWhile_dropWhile_id[of isSpace cs] by (simp only: dw)
          have "caseVariant (takeWhile isSpace cs @ d # ds)
                  (takeWhile isSpace cs @ toUpperChar d # capitalizeSentences ds)"
            by (intro caseVariant_append caseVariant_refl caseVariant_Cons ds) simp
          then have "caseVariant cs (takeWhile isSpace cs @ toUpperChar d # capitalizeSentences ds)"
            using cs by simp
          then have "caseVariant (c # cs)
             (c # takeWhile isSpace cs @ toUpperChar d # capitalizeSentences ds)"
            by (intro caseVariant_Cons) simp_all
          then show ?thesis unfolding Cons eq .
        qed
      qed
    qed
  qed
qed

lemma caseVariant_capitalizeFirst: "caseVariant s (capitalizeFirst s)"
  by (cases s) (auto simp: capitalizeFirst_def caseVariant_refl intro: caseVariant_Cons)

lemma tidy_caseVariant: "caseVariant s t \<Longrightarrow> tidy p t = tidy p s"
  unfolding caseVariant_def
proof (induction s t arbitrary: p rule: list_all2_induct)
  case Nil
  then show ?case by simp
next
  case (Cons a s b t)
  have sp: "isSpace b = isSpace a" using Cons.hyps(1) by (auto simp: isSpace_toUpperChar)
  have eq: "(b = CHR '' '') = (a = CHR '' '')" using Cons.hyps(1) by (auto simp: toUpperChar_space)
  show ?case by (simp only: tidy.simps sp eq Cons.IH)
qed

text \<open>step 9\<close>

lemma dashSpacing_tidy: "tidy p s \<Longrightarrow> dashSpacing s = s"
proof (induction s arbitrary: p rule: length_induct)
  case (1 s)
  note IH = 1(1)[rule_format] and t = 1(2)
  show ?case
  proof (cases s)
    case Nil
    then show ?thesis by simp
  next
    case (Cons c cs)
    have tl: "dashSpacing cs = cs"
      using IH[of cs "isSpace c"] t Cons by (auto split: if_splits)
    show ?thesis
    proof (cases "isSpace c")
      case False
      then show ?thesis using Cons tl by simp
    next
      case True
      with t Cons have c: "c = CHR '' ''" and tc: "tidy True cs" by auto
      have dw: "dropWhile isSpace cs = cs" using tc by (rule tidy_no_run)
      show ?thesis
      proof (cases cs)
        case Nil
        then show ?thesis using Cons True by simp
      next
        case cs: (Cons d ds)
        show ?thesis
        proof (cases "d = CHR ''-'' \<and> spaceAt ds")
          case False
          then show ?thesis using Cons True dw cs tl by auto
        next
          case dash: True
          then obtain e es where ds: "ds = e # es" and e: "isSpace e" by (cases ds) auto
          have "tidy False ds" using tc cs dash by (auto simp: isSpace_def)
          with ds e have e': "e = CHR '' ''" and tes: "tidy True es" by auto
          have "dropWhile isSpace ds = es" using ds e tidy_no_run[OF tes] by simp
          moreover have "dashSpacing es = es" using IH[of es True] tes Cons cs ds by simp
          ultimately show ?thesis using Cons True dw cs dash c e' ds by simp
        qed
      qed
    qed
  qed
qed

text \<open>step 12\<close>

lemma trim_infix: "\<exists>a b. s = a @ trim s @ b"
proof -
  let ?t = "dropWhile isSpace s"
  have 1: "s = takeWhile isSpace s @ ?t" by simp
  have "rev ?t = takeWhile isSpace (rev ?t) @ dropWhile isSpace (rev ?t)" by simp
  then have "?t = rev (dropWhile isSpace (rev ?t)) @ rev (takeWhile isSpace (rev ?t))"
    by (metis rev_append rev_rev_ident)
  then have "s = takeWhile isSpace s @ trim s @ rev (takeWhile isSpace (rev ?t))"
    unfolding trim_def using 1 by simp
  then show ?thesis by blast
qed

lemma tidy_trim: "tidy p s \<Longrightarrow> tidy False (trim s)"
proof -
  assume t: "tidy p s"
  obtain a b where s: "s = a @ trim s @ b" using trim_infix by blast
  from t have "tidy p (a @ trim s @ b)" using s by simp
  then have "tidy False (trim s @ b)" using tidy_append by blast
  then show ?thesis using tidy_append by blast
qed

lemma trim_ends: "\<not> spaceAt (trim s)" "\<not> spaceAt (rev (trim s))"
proof -
  let ?t = "dropWhile isSpace s"
  show "\<not> spaceAt (rev (trim s))" by (simp add: trim_def not_spaceAt_dropWhile)
  have "\<not> spaceAt ?t" by (rule not_spaceAt_dropWhile)
  moreover have "\<And>t. \<not> spaceAt t \<Longrightarrow> \<not> spaceAt (rev (dropWhile isSpace (rev t)))"
  proof -
    fix t :: string
    assume n: "\<not> spaceAt t"
    show "\<not> spaceAt (rev (dropWhile isSpace (rev t)))"
    proof (cases t)
      case Nil
      then show ?thesis by simp
    next
      case (Cons c cs)
      with n have c: "\<not> isSpace c" by simp
      have "dropWhile isSpace (rev cs @ [c]) = dropWhile isSpace (rev cs) @ [c]"
        using c by (simp add: dropWhile_append3)
      then show ?thesis using Cons c by simp
    qed
  qed
  ultimately show "\<not> spaceAt (trim s)" by (simp add: trim_def)
qed

lemma tidy_finalPolish: "tidy False (finalPolish s)"
  unfolding finalPolish_def Let_def
  by (intro tidy_trim[of False] tidy_removeSpaceBefore)
     (simp add: dashSpacing_tidy[of False] tidy_caseVariant[OF caseVariant_capitalizeFirst]
        tidy_caseVariant[OF caseVariant_capitalizeSentences] tidy_collapseChar isSpace_def
        tidy_spaceAfterPunct tidy_removeSpaceBefore tidy_collapseSpaces)

lemma tidy_only_spaces: "tidy p s \<Longrightarrow> c \<in> set s \<Longrightarrow> isSpace c \<Longrightarrow> c = CHR '' ''"
  by (induction s arbitrary: p) (auto split: if_splits)

lemma tidy_no_adjacent:
  "tidy p s \<Longrightarrow> Suc i < length s \<Longrightarrow> \<not> (isSpace (s ! i) \<and> isSpace (s ! Suc i))"
proof (induction s arbitrary: p i)
  case Nil
  then show ?case by simp
next
  case (Cons c cs)
  show ?case
  proof (cases i)
    case 0
    with Cons.prems show ?thesis by (cases cs) (auto split: if_splits)
  next
    case (Suc j)
    have "tidy (isSpace c) cs" using Cons.prems(1) by (auto split: if_splits)
    then show ?thesis using Cons.IH[of "isSpace c" j] Cons.prems(2) Suc by simp
  qed
qed


lemma singleSpaced_tidy:
  assumes t: "tidy False out" and a: "\<not> spaceAt out" and b: "\<not> spaceAt (rev out)"
  shows "singleSpaced out"
proof -
  have only: "\<And>c. c \<in> set out \<Longrightarrow> isSpace c \<Longrightarrow> c = CHR '' ''"
    using t by (rule tidy_only_spaces)
  have lf: "CHR 0x0A \<notin> set out"
  proof
    assume "CHR 0x0A \<in> set out"
    then have "CHR 0x0A = CHR '' ''" by (rule only) (simp add: isSpace_def)
    then show False by simp
  qed
  have tab: "CHR 0x09 \<notin> set out"
  proof
    assume "CHR 0x09 \<in> set out"
    then have "CHR 0x09 = CHR '' ''" by (rule only) (simp add: isSpace_def)
    then show False by simp
  qed
  have adj: "\<not> (\<exists>i. Suc i < length out \<and> out ! i = CHR '' '' \<and> out ! Suc i = CHR '' '')"
  proof
    assume "\<exists>i. Suc i < length out \<and> out ! i = CHR '' '' \<and> out ! Suc i = CHR '' ''"
    then obtain i where i: "Suc i < length out" "out ! i = CHR '' ''" "out ! Suc i = CHR '' ''"
      by blast
    from tidy_no_adjacent[OF t i(1)] i(2,3) show False by (simp add: space_is_space)
  qed
  show ?thesis unfolding singleSpaced_def using lf tab only adj a b by blast
qed

lemma singleSpaced_finalPolish: "singleSpaced (finalPolish s)"
  by (intro singleSpaced_tidy tidy_finalPolish)
     (simp_all add: finalPolish_def Let_def trim_ends)

section \<open>Properties of applyHumanization\<close>

subsection \<open>With every gate closed\<close>

lemma quiet_light_professional:
  "applyHumanization txt Professional Light quietAnalysis g
     = (case addNaturalFlow (makeProfessional (removeRoboticTransitions txt) Light)
               Professional Light g
        of (r, g') \<Rightarrow> Inr (finalPolish r, g'))"
  by (simp add: applyHumanization_def humanizePass_def quietAnalysis_def
        applyToneTransformations_def split: prod.splits)

subsection \<open>The white space of the output\<close>

text \<open>
  C10. The result of \<open>finalPolish\<close>, and so every text that \<open>applyHumanization\<close> returns,
  has no line feed and no tab, no white space but single space characters, and no white
  space at its ends: the blank lines between the paragraphs of the input are gone.
\<close>

theorem humanized_output_single_spaced:
  "singleSpaced (finalPolish s)
   \<and> (\<forall>out g'. applyHumanization txt tn st an g = Inr (out, g') \<longrightarrow> singleSpaced out)"
proof (intro conjI allI impI)
  show "singleSpaced (finalPolish s)" by (rule singleSpaced_finalPolish)
next
  fix out g'
  assume "applyHumanization txt tn st an g = Inr (out, g')"
  then obtain r where "out = finalPolish r"
    by (auto simp: applyHumanization_def Let_def split: sum.splits prod.splits)
  then show "singleSpaced out" by (simp add: singleSpaced_finalPolish)
qed

theorem humanized_output_single_spaced_witness:
  "\<exists>g'. applyHumanization twoParagraphs Professional Light quietAnalysis (\<lambda>_. 1 / 2)
          = Inr (''One two.'', g')
        \<and> singleSpaced ''One two.'' \<and> CHR 0x0A \<notin> set ''One two.''"
proof -
  have 1: "removeRoboticTransitions twoParagraphs = twoParagraphs" by code_simp
  have 2: "makeProfessional twoParagraphs Light = twoParagraphs" by code_simp
  have 3: "fst (addNaturalFlow twoParagraphs Professional Light (\<lambda>_. 1 / 2)) = twoParagraphs"
    by code_simp
  have 4: "finalPolish twoParagraphs = ''One two.''" by code_simp
  obtain r g' where a: "addNaturalFlow twoParagraphs Professional Light (\<lambda>_. 1 / 2) = (r, g')"
    by (cases "addNaturalFlow twoParagraphs Professional Light (\<lambda>_. 1 / 2)")
  with 3 have r: "r = twoParagraphs" by simp
  have run: "applyHumanization twoParagraphs Professional Light quietAnalysis (\<lambda>_. 1 / 2)
          = Inr (''One two.'', g')"
    by (simp add: quiet_light_professional 1 2 a r 4)
  have "singleSpaced ''One two.''"
    using humanized_output_single_spaced[of twoParagraphs twoParagraphs Professional Light
        quietAnalysis "\<lambda>_. 1 / 2"] run by blast
  then show ?thesis using run by (auto simp: singleSpaced_def)
qed

subsection \<open>The passes\<close>

lemma applyHumanization_unfold:
  "applyHumanization txt tn Light an g =
     (case humanizePass tn Light an txt g of
        Inl e \<Rightarrow> Inl e
      | Inr (r1, g1) \<Rightarrow> Inr (finalPolish r1, g1))
   \<and> applyHumanization txt tn Medium an g =
     (case humanizePass tn Medium an txt g of
        Inl e \<Rightarrow> Inl e
      | Inr (r1, g1) \<Rightarrow>
          (case humanizePass tn Medium an r1 g1 of
             Inl e \<Rightarrow> Inl e
           | Inr (r2, g2) \<Rightarrow> Inr (finalPolish r2, g2)))
   \<and> applyHumanization txt tn Aggressive an g =
     (case humanizePass tn Aggressive an txt g of
        Inl e \<Rightarrow> Inl e
      | Inr (r1, g1) \<Rightarrow>
          (case humanizePass tn Aggressive an r1 g1 of
             Inl e \<Rightarrow> Inl e
           | Inr (r2, g2) \<Rightarrow>
               (case humanizePass tn Aggressive an r2 g2 of
                  Inl e \<Rightarrow> Inl e
                | Inr (r3, g3) \<Rightarrow> Inr (finalPolish r3, g3))))"
  by (simp add: applyHumanization_def numeral_3_eq_3 numeral_2_eq_2 split: sum.splits prod.splits)

lemma reduceRepetition_constructor:
  "reduceRepetition repeatedConstructor st (\<lambda>_. 0) = Inl TypeError"
proof -
  have sp: "splitKeepSpaces repeatedConstructor
      = [''Constructor'', '' '', ''Constructor'', '' '', ''Constructor'']"
    by code_simp
  have lw: "toLowerCase ''Constructor'' = ''constructor''" "toLowerCase '' '' = '' ''"
    by code_simp+
  have syn: "synonymsOf ''constructor'' = ObjectFunction" "synonymsOf '' '' = Undefined"
    by code_simp+
  have cap: "isCapitalized ''Constructor''" by code_simp
  have thr: "(0::real) < (if st = Aggressive then 0.7 else 0.4)" by simp
  show ?thesis
    unfolding reduceRepetition_def sp
    using thr
    by (simp add: repetitionStep_def lw syn cap random_def Let_def)
qed

text \<open>
  C8. The loop of \<open>applyHumanization\<close> is written for one, two or three passes and one
  \<open>finalPolish\<close> after them, but not every input gets them. For the text
  \<^verbatim>\<open>Constructor Constructor Constructor\<close> the analyzer's own analysis opens the gate of
  \<open>reduceRepetition\<close> (the repetition score is 1/6); at the third occurrence
  \<^verbatim>\<open>synonymMap[lowerWord]\<close> finds the inherited property \<^verbatim>\<open>constructor\<close>, and when the
  random draw is below the threshold the stage reads \<^verbatim>\<open>charAt\<close> of \<^verbatim>\<open>undefined\<close>: the call
  throws in its first pass, for every tone and every strength, and \<open>finalPolish\<close> is never
  applied.
\<close>

theorem repeated_constructor_throws:
  "0.05 < repetitionScore (analyzeAIPatterns repeatedConstructor)
   \<and> applyHumanization repeatedConstructor tn st (analyzeAIPatterns repeatedConstructor)
         (\<lambda>_. 0)
       = Inl TypeError"
proof -
  have w: "splitWords repeatedConstructor = [''constructor'', ''constructor'', ''constructor'']"
    by code_simp
  have s: "splitSentences repeatedConstructor = [''Constructor Constructor Constructor'']"
    by code_simp
  have nw: "splitWords repeatedConstructor \<noteq> []"
    and ns: "splitSentences repeatedConstructor \<noteq> []"
    by (simp_all add: w s)
  have f: "formalityOf [''constructor'', ''constructor'', ''constructor''] = 0" by code_simp
  have r: "repetitionOf [''constructor'', ''constructor'', ''constructor''] = 1 / 6"
    by code_simp
  have fs: "formalityScore (analyzeAIPatterns repeatedConstructor) = 0"
    by (simp add: analyze_fields[OF nw ns] w f)
  have rs: "repetitionScore (analyzeAIPatterns repeatedConstructor) = 1 / 6"
    by (simp add: analyze_fields[OF nw ns] w r)
  have pass: "humanizePass tn st (analyzeAIPatterns repeatedConstructor) repeatedConstructor
      (\<lambda>_. 0) = Inl TypeError"
    by (simp add: humanizePass_def fs rs reduceRepetition_constructor)
  have "applyHumanization repeatedConstructor tn st (analyzeAIPatterns repeatedConstructor)
      (\<lambda>_. 0) = Inl TypeError"
    using pass
    by (cases st) (simp_all add: applyHumanization_def numeral_3_eq_3 numeral_2_eq_2)
  then show ?thesis by (simp add: rs)
qed

subsection \<open>The professional tone\<close>

text \<open>
  The words of a text are its maximal runs of word characters, the units that \<^verbatim>\<open>\b\<close>
  delimits. The stages after \<open>makeProfessional\<close> and the final polish are followed by the
  lower-cased list of these runs.
\<close>


lemma wordAt_simps [simp]: "wordAt [] = False" "wordAt (c # cs) = isWordChar c"
  by (simp_all add: wordAt_def)




lemma wordRuns_nonword: "list_all (\<lambda>c. \<not> isWordChar c) n \<Longrightarrow> wordRuns (n @ s) = wordRuns s"
  by (induction n) auto








lemma sameWords_trans: "sameWords s t \<Longrightarrow> sameWords t u \<Longrightarrow> sameWords s u"
  by (simp add: sameWords_def)


lemma sameWords_nonword:
  "list_all (\<lambda>c. \<not> isWordChar c) n \<Longrightarrow> n \<noteq> [] \<or> \<not> wordAt s \<Longrightarrow> sameWords (n @ s) s'
     = (lowerRuns s = lowerRuns s' \<and> (if n = [] then wordAt s else False) = wordAt s')"
  by (cases n) (auto simp: sameWords_def lowerRuns_def wordRuns_nonword)

lemma sameWords_drop_nonword:
  assumes "\<not> isWordChar c" and "list_all (\<lambda>c. \<not> isWordChar c) n" and "\<not> isWordChar d"
    and "lowerRuns X = lowerRuns Y"
  shows "sameWords (c # n @ Y) (d # X)"
  using assms wordRuns_nonword[of n Y]
  by (simp add: sameWords_def lowerRuns_def)
























































subsection \<open>Polishing twice\<close>

theorem finalPolish_leading_space_counterexample:
  "finalPolish '' a'' = ''a'' \<and> finalPolish (finalPolish '' a'') = ''A''
   \<and> finalPolish (finalPolish '' a'') \<noteq> finalPolish '' a''"
  by code_simp

end
